theory Spec2Isabelle
  imports Complex_Main
begin

section \<open>Numbers, errors and strings\<close>

text \<open>
  Python floats are modelled as exact rationals: every arithmetic step of the source is
  kept, its binary rounding error is not. Python's \<^verbatim>\<open>int\<close> is \<^typ>\<open>int\<close>.
  An exception of the source is a value of \<open>py_error\<close>; \<open>ValidationError\<close> is the
  error the specification names, no path of the source raises it.
\<close>

datatype py_error = ZeroDivisionError | KeyError | IndexError | TypeError | ValidationError

text \<open>Python 3 \<^verbatim>\<open>round(x)\<close>: to the nearest integer, a tie to the even one.\<close>

definition py_round :: "rat \<Rightarrow> int" where
  "py_round x =
     (let f = \<lfloor>x\<rfloor>; d = x - of_int f
      in if d < 1 / 2 then f else if 1 / 2 < d then f + 1 else if even f then f else f + 1)"

text \<open>\<^verbatim>\<open>round(x, 2)\<close>.\<close>

definition py_round2 :: "rat \<Rightarrow> rat" where
  "py_round2 x = of_int (py_round (x * 100)) / 100"

text \<open>\<^verbatim>\<open>str.lower()\<close> on ASCII text.\<close>

definition lower_char :: "char \<Rightarrow> char" where
  "lower_char c =
     (let n = (of_char c :: nat) in if 65 \<le> n \<and> n \<le> 90 then char_of (n + 32) else c)"

definition lower :: "string \<Rightarrow> string" where
  "lower s = map lower_char s"

text \<open>\<^verbatim>\<open>d.get(k, default)\<close> on a dictionary kept as an association list.\<close>

definition dict_get :: "('k \<times> 'v) list \<Rightarrow> 'k \<Rightarrow> 'v \<Rightarrow> 'v" where
  "dict_get m k dflt = (case map_of m k of None \<Rightarrow> dflt | Some v \<Rightarrow> v)"

text \<open>\<^verbatim>\<open>d[k] = d.get(k, 0) + v\<close>: a new key goes last, an old one keeps its place.\<close>

fun dict_add :: "(string \<times> rat) list \<Rightarrow> string \<Rightarrow> rat \<Rightarrow> (string \<times> rat) list" where
  "dict_add [] k v = [(k, 0 + v)]"
| "dict_add ((k', w) # m) k v = (if k' = k then (k', w + v) # m else (k', w) # dict_add m k v)"

section \<open>Risk scorer: tables\<close>

record defect_weight =
  severity :: rat
  area_multiplier :: rat
  description :: string

definition DEFECT_WEIGHTS :: "(string \<times> defect_weight) list" where
  "DEFECT_WEIGHTS =
    [(''crack'', \<lparr>severity = 3, area_multiplier = 3 / 2,
        description = ''Structural cracks may indicate foundation or settling issues''\<rparr>),
     (''leak'', \<lparr>severity = 4, area_multiplier = 2,
        description = ''Active leaks cause progressive damage''\<rparr>),
     (''water_damage'', \<lparr>severity = 4, area_multiplier = 2,
        description = ''Water damage may hide mold or rot''\<rparr>),
     (''damp'', \<lparr>severity = 2, area_multiplier = 6 / 5,
        description = ''Dampness indicates moisture intrusion''\<rparr>),
     (''dampness'', \<lparr>severity = 2, area_multiplier = 6 / 5,
        description = ''Dampness indicates moisture intrusion''\<rparr>),
     (''mold'', \<lparr>severity = 5, area_multiplier = 5 / 2,
        description = ''Mold poses health hazards and spreads''\<rparr>),
     (''mould'', \<lparr>severity = 5, area_multiplier = 5 / 2,
        description = ''Mold poses health hazards and spreads''\<rparr>),
     (''corrosion'', \<lparr>severity = 3, area_multiplier = 3 / 2,
        description = ''Corrosion weakens structural elements''\<rparr>),
     (''rust'', \<lparr>severity = 3, area_multiplier = 3 / 2,
        description = ''Rust indicates moisture exposure''\<rparr>),
     (''peeling'', \<lparr>severity = 3 / 2, area_multiplier = 1,
        description = ''Peeling paint may expose surfaces''\<rparr>),
     (''stain'', \<lparr>severity = 1, area_multiplier = 4 / 5,
        description = ''Staining may indicate past water issues''\<rparr>),
     (''electrical'', \<lparr>severity = 9 / 2, area_multiplier = 1,
        description = ''Electrical issues pose fire/safety risk''\<rparr>),
     (''spalling'', \<lparr>severity = 7 / 2, area_multiplier = 9 / 5,
        description = ''Concrete spalling exposes rebar''\<rparr>),
     (''deformation'', \<lparr>severity = 4, area_multiplier = 2,
        description = ''Structural deformation is serious''\<rparr>),
     (''default'', \<lparr>severity = 2, area_multiplier = 1,
        description = ''Potential issue requiring assessment''\<rparr>)]"

text \<open>\<^verbatim>\<open>DEFECT_WEIGHTS['default']\<close>.\<close>

definition default_weight :: defect_weight where
  "default_weight = \<lparr>severity = 2, area_multiplier = 1,
     description = ''Potential issue requiring assessment''\<rparr>"

definition AGE_FACTORS :: "(string \<times> rat) list" where
  "AGE_FACTORS =
    [(''pre_1950'', 15), (''pre_1970'', 10), (''1970_1990'', 5), (''1990_2010'', 2),
     (''post_2010'', 0)]"

definition CLIMATE_FACTORS :: "(string \<times> (string \<times> rat) list) list" where
  "CLIMATE_FACTORS =
    [(''hot_humid'', [(''mold'', 3 / 2), (''dampness'', 13 / 10), (''rust'', 6 / 5)]),
     (''cold_dry'', [(''crack'', 13 / 10), (''spalling'', 7 / 5)]),
     (''coastal'', [(''rust'', 3 / 2), (''corrosion'', 3 / 2), (''salt_damage'', 7 / 5)]),
     (''temperate'', [])]"

section \<open>Risk scorer: records\<close>

text \<open>
  A detection is a dictionary; a key that is absent is \<open>None\<close>. The keys read by the
  scorer and the tracker are \<^verbatim>\<open>class\<close>, \<^verbatim>\<open>confidence\<close>, \<^verbatim>\<open>bbox\<close> and
  \<^verbatim>\<open>affected_area_percent\<close> (whose value \<^verbatim>\<open>None\<close> is read like the absent key).
  The box is typed here as a list of numbers, of any length; the section on the scorer on
  a box of any value reads it as any value.
\<close>

record detection =
  det_class :: "string option"
  confidence :: "rat option"
  bbox :: "rat list option"
  affected_area_percent :: "rat option"

text \<open>The two keys of \<^verbatim>\<open>user_context\<close> that the scorer reads.\<close>

record user_context =
  climate :: "string option"
  building_age :: "string option"

record breakdown_entry =
  defect_type :: string
  b_confidence :: rat
  penalty :: rat
  b_severity :: rat
  b_description :: string
  climate_adjusted :: bool

text \<open>
  The two result dictionaries of \<^verbatim>\<open>calculate_score\<close> do not have the same keys:
  \<^verbatim>\<open>climate_factor\<close> is only in the result for no defects, \<^verbatim>\<open>by_defect_type\<close>,
  \<^verbatim>\<open>total_penalty\<close> and \<^verbatim>\<open>user_context_applied\<close> only in the other one.
\<close>

record penalty_breakdown =
  pb_defects :: rat
  pb_age_factor :: rat
  pb_climate_factor :: "rat option"
  pb_by_defect_type :: "(string \<times> rat) list option"

record score_result =
  score :: int
  risk_level :: string
  defect_count :: int
  total_penalty :: "rat option"
  penalty_breakdown :: penalty_breakdown
  breakdown :: "breakdown_entry list"
  summary :: string
  ai_explanation :: "string option"
  recommended_actions :: "string list"
  user_context_applied :: "bool option"

text \<open>
  The Snowflake Cortex collaborator. \<^verbatim>\<open>analyze_with_cortex\<close> may query a remote
  language model, so its answer is not a function of this program: it is a parameter.
  \<open>None\<close> is an exception raised by the call. Of the answer, the scorer reads
  \<^verbatim>\<open>risk_explanation\<close> and \<^verbatim>\<open>recommended_actions\<close>.
\<close>

record cortex_result =
  risk_explanation :: string
  cx_recommended_actions :: "string list"

type_synonym cortex = "detection list \<Rightarrow> user_context option \<Rightarrow> cortex_result option"

text \<open>The scorer object: its configuration and the lazily loaded collaborator.\<close>

record scorer =
  base_score :: rat
  max_defects_penalty :: rat
  confidence_weight :: rat
  enable_cortex_ai :: bool
  cortex_analytics :: "cortex option"

text \<open>\<^verbatim>\<open>RiskScorer()\<close> with the default arguments.\<close>

definition default_scorer :: scorer where
  "default_scorer = \<lparr>base_score = 100, max_defects_penalty = 70, confidence_weight = 4 / 5,
     enable_cortex_ai = True, cortex_analytics = None\<rparr>"

section \<open>Risk scorer: operations\<close>

text \<open>
  \<^verbatim>\<open>_get_cortex_analytics\<close>. The first argument is what the import of the analytics
  module yields, \<open>None\<close> when it raises \<^verbatim>\<open>ImportError\<close>.
\<close>

definition get_cortex_analytics :: "cortex option \<Rightarrow> scorer \<Rightarrow> cortex option \<times> scorer" where
  "get_cortex_analytics imported sc =
     (if cortex_analytics sc = None \<and> enable_cortex_ai sc
      then (imported, sc\<lparr>cortex_analytics := imported\<rparr>)
      else (cortex_analytics sc, sc))"

text \<open>The area factor of one defect; the division by \<^verbatim>\<open>image_area\<close> can raise.\<close>

definition area_factor :: "int \<Rightarrow> detection \<Rightarrow> py_error + rat" where
  "area_factor image_area defect =
     (case affected_area_percent defect of
        Some p \<Rightarrow> Inr (p / 10)
      | None \<Rightarrow>
          (let b = (case bbox defect of None \<Rightarrow> [0, 0, 0, 0] | Some b \<Rightarrow> b)
           in if length b = 4
              then (if image_area = 0 then Inl ZeroDivisionError
                    else Inr ((b ! 2 - b ! 0) * (b ! 3 - b ! 1) / of_int image_area * 10))
              else Inr 1))"

definition defect_class_of :: "detection \<Rightarrow> string" where
  "defect_class_of defect = lower (case det_class defect of None \<Rightarrow> ''unknown'' | Some c \<Rightarrow> c)"

definition confidence_of :: "detection \<Rightarrow> rat" where
  "confidence_of defect = (case confidence defect of None \<Rightarrow> 1 / 2 | Some c \<Rightarrow> c)"

definition weight_of :: "detection \<Rightarrow> defect_weight" where
  "weight_of defect = dict_get DEFECT_WEIGHTS (defect_class_of defect) default_weight"

definition climate_mult :: "(string \<times> rat) list \<Rightarrow> detection \<Rightarrow> rat" where
  "climate_mult climate_adjustments defect =
     dict_get climate_adjustments (defect_class_of defect) 1"

text \<open>The penalty of one defect, as the loop body computes it.\<close>

definition defect_penalty ::
  "scorer \<Rightarrow> (string \<times> rat) list \<Rightarrow> int \<Rightarrow> detection \<Rightarrow> py_error + rat" where
  "defect_penalty sc climate_adjustments image_area defect =
     (case area_factor image_area defect of
        Inl e \<Rightarrow> Inl e
      | Inr af \<Rightarrow>
          (let weight = weight_of defect;
               base_penalty = severity weight * 3;
               area_penalty = af * area_multiplier weight;
               confidence_factor =
                 confidence_of defect * confidence_weight sc + (1 - confidence_weight sc)
           in Inr ((base_penalty + area_penalty) * confidence_factor
                     * climate_mult climate_adjustments defect)))"

definition breakdown_of :: "(string \<times> rat) list \<Rightarrow> detection \<Rightarrow> rat \<Rightarrow> breakdown_entry" where
  "breakdown_of climate_adjustments defect p =
     \<lparr>defect_type = defect_class_of defect,
      b_confidence = py_round2 (confidence_of defect),
      penalty = py_round2 p,
      b_severity = severity (weight_of defect),
      b_description = description (weight_of defect),
      climate_adjusted = (climate_mult climate_adjustments defect \<noteq> 1)\<rparr>"

text \<open>
  The loop over the defects. The state is \<^verbatim>\<open>total_penalty\<close>, \<^verbatim>\<open>breakdown\<close> and
  \<^verbatim>\<open>penalty_by_type\<close>.
\<close>

fun score_defects ::
  "scorer \<Rightarrow> (string \<times> rat) list \<Rightarrow> int \<Rightarrow> detection list
     \<Rightarrow> rat \<times> breakdown_entry list \<times> (string \<times> rat) list
     \<Rightarrow> py_error + rat \<times> breakdown_entry list \<times> (string \<times> rat) list" where
  "score_defects sc adj image_area [] st = Inr st"
| "score_defects sc adj image_area (defect # defects) (tp, bd, by_type) =
     (case defect_penalty sc adj image_area defect of
        Inl e \<Rightarrow> Inl e
      | Inr p \<Rightarrow>
          score_defects sc adj image_area defects
            (tp + p, bd @ [breakdown_of adj defect p],
             dict_add by_type (defect_class_of defect) p))"

definition climate_of :: "user_context option \<Rightarrow> string" where
  "climate_of ctx =
     (case ctx of None \<Rightarrow> ''temperate''
      | Some c \<Rightarrow> (case climate c of None \<Rightarrow> ''temperate'' | Some s \<Rightarrow> s))"

definition age_penalty_of :: "user_context option \<Rightarrow> rat" where
  "age_penalty_of ctx =
     (case ctx of None \<Rightarrow> 0
      | Some c \<Rightarrow> (case building_age c of None \<Rightarrow> 0 | Some k \<Rightarrow> dict_get AGE_FACTORS k 0))"

text \<open>The band of a final score: risk level, summary, recommended actions.\<close>

definition risk_level_of :: "int \<Rightarrow> string" where
  "risk_level_of s =
     (if s \<le> 30 then ''High Risk'' else if s \<le> 60 then ''Moderate Risk'' else ''Low Risk'')"

definition summary_of :: "int \<Rightarrow> string" where
  "summary_of s =
     (if s \<le> 30
      then ''Critical defects detected. Immediate professional inspection recommended.''
      else if s \<le> 60 then ''Several defects detected. Consider addressing these issues soon.''
      else ''Minor issues detected. Property is in acceptable condition.'')"

definition actions_of :: "int \<Rightarrow> string list" where
  "actions_of s =
     (if s \<le> 30
      then [''Schedule professional inspection immediately'',
            ''Document all affected areas with photos'',
            ''Consider temporary mitigation measures'']
      else if s \<le> 60
      then [''Schedule professional assessment within 2 weeks'',
            ''Monitor affected areas for changes'',
            ''Obtain repair estimates'']
      else [''Include in regular maintenance schedule'',
            ''Monitor for deterioration over time''])"

text \<open>The result for an empty list of defects.\<close>

definition base_result :: score_result where
  "base_result =
     \<lparr>score = 100, risk_level = ''Low Risk'', defect_count = 0, total_penalty = None,
      penalty_breakdown = \<lparr>pb_defects = 0, pb_age_factor = 0, pb_climate_factor = Some 0,
        pb_by_defect_type = None\<rparr>,
      breakdown = [],
      summary = ''No defects detected. Property appears to be in good condition.'',
      ai_explanation = None,
      recommended_actions = [''Continue regular maintenance''],
      user_context_applied = None\<rparr>"

text \<open>
  \<^verbatim>\<open>calculate_score\<close>. It returns the result and the scorer object, whose
  \<^verbatim>\<open>_cortex_analytics\<close> the call may have set. \<open>imported\<close> is the collaborator that
  the import yields (see \<open>get_cortex_analytics\<close>).
\<close>

definition calculate_score ::
  "cortex option \<Rightarrow> scorer \<Rightarrow> detection list \<Rightarrow> int \<Rightarrow> user_context option
     \<Rightarrow> py_error + score_result \<times> scorer" where
  "calculate_score imported sc defects image_area ctx =
     (if defects = [] then Inr (base_result, sc)
      else
        (case score_defects sc (dict_get CLIMATE_FACTORS (climate_of ctx) []) image_area
                defects (0, [], []) of
           Inl e \<Rightarrow> Inl e
         | Inr (total0, bd, by_type) \<Rightarrow>
             (let age_penalty = age_penalty_of ctx;
                  total1 = total0 + age_penalty;
                  defect_penalty_capped = min (total1 - age_penalty) (max_defects_penalty sc);
                  total2 = defect_penalty_capped + age_penalty;
                  final_score = py_round (max 0 (base_score sc - total2));
                  (cx, sc') = get_cortex_analytics imported sc;
                  cortex_answer = (case cx of None \<Rightarrow> None | Some f \<Rightarrow> f defects ctx);
                  ai = (case cortex_answer of None \<Rightarrow> None
                        | Some r \<Rightarrow> Some (risk_explanation r));
                  actions = (case cortex_answer of None \<Rightarrow> actions_of final_score
                        | Some r \<Rightarrow>
                            if cx_recommended_actions r \<noteq> [] then cx_recommended_actions r
                            else actions_of final_score)
              in Inr (\<lparr>score = final_score,
                       risk_level = risk_level_of final_score,
                       defect_count = int (length defects),
                       total_penalty = Some (py_round2 total2),
                       penalty_breakdown =
                         \<lparr>pb_defects = py_round2 defect_penalty_capped,
                          pb_age_factor = py_round2 age_penalty,
                          pb_climate_factor = None,
                          pb_by_defect_type = Some (map (\<lambda>(k, v). (k, py_round2 v)) by_type)\<rparr>,
                       breakdown = bd,
                       summary = summary_of final_score,
                       ai_explanation = ai,
                       recommended_actions = actions,
                       user_context_applied = Some (ctx \<noteq> None)\<rparr>, sc'))))"

text \<open>
  A per-frame result as \<^verbatim>\<open>aggregate_scores\<close> reads it: \<^verbatim>\<open>s['score']\<close> and
  \<^verbatim>\<open>s['defect_count']\<close> raise \<^verbatim>\<open>KeyError\<close> on an absent key,
  \<^verbatim>\<open>fs.get('breakdown', [])\<close> does not.
\<close>

record frame_score =
  fs_score :: "int option"
  fs_defect_count :: "int option"
  fs_breakdown :: "breakdown_entry list option"

definition as_frame :: "score_result \<Rightarrow> frame_score" where
  "as_frame r = \<lparr>fs_score = Some (score r), fs_defect_count = Some (defect_count r),
     fs_breakdown = Some (breakdown r)\<rparr>"

record session_aggregate =
  sa_score :: int
  average_score :: int
  sa_risk_level :: string
  frames_analyzed :: int
  total_defects_found :: int
  defect_breakdown :: "breakdown_entry list"

datatype aggregate_output = NoFrames score_result | Session session_aggregate

text \<open>\<^verbatim>\<open>[s[k] for s in frame_scores]\<close> for a key \<open>k\<close> that must be present.\<close>

fun keys_of :: "('a \<Rightarrow> 'b option) \<Rightarrow> 'a list \<Rightarrow> py_error + 'b list" where
  "keys_of k [] = Inr []"
| "keys_of k (s # ss) =
     (case k s of None \<Rightarrow> Inl KeyError
      | Some v \<Rightarrow> (case keys_of k ss of Inl e \<Rightarrow> Inl e | Inr vs \<Rightarrow> Inr (v # vs)))"

text \<open>Python's \<^verbatim>\<open>min\<close> of a non-empty sequence.\<close>

fun py_min :: "int list \<Rightarrow> int" where
  "py_min [] = 0"
| "py_min [x] = x"
| "py_min (x # y # ys) = (let m = py_min (y # ys) in if m < x then m else x)"

definition aggregate_scores ::
  "cortex option \<Rightarrow> scorer \<Rightarrow> frame_score list \<Rightarrow> py_error + aggregate_output \<times> scorer" where
  "aggregate_scores imported sc frame_scores =
     (if frame_scores = []
      then (case calculate_score imported sc [] (640 * 480) None of
              Inl e \<Rightarrow> Inl e
            | Inr (r, sc') \<Rightarrow> Inr (NoFrames r, sc'))
      else
        (case keys_of fs_score frame_scores of
           Inl e \<Rightarrow> Inl e
         | Inr scores \<Rightarrow>
             (let min_score = py_min scores;
                  avg_score = (of_int (sum_list scores) :: rat) / of_nat (length frame_scores);
                  all_defects =
                    concat (map (\<lambda>fs. case fs_breakdown fs of None \<Rightarrow> [] | Some b \<Rightarrow> b)
                      frame_scores);
                  level = (if min_score \<le> 30 then ''High Risk''
                           else if min_score \<le> 60 then ''Moderate Risk'' else ''Low Risk'')
              in (case keys_of fs_defect_count frame_scores of
                    Inl e \<Rightarrow> Inl e
                  | Inr counts \<Rightarrow>
                      Inr (Session
                        \<lparr>sa_score = min_score,
                         average_score = py_round avg_score,
                         sa_risk_level = level,
                         frames_analyzed = int (length frame_scores),
                         total_defects_found = sum_list counts,
                         defect_breakdown = all_defects\<rparr>, sc)))))"

section \<open>Temporal tracker\<close>

record defect_track =
  track_id :: int
  defect_class :: string
  first_frame :: int
  last_frame :: int
  frames_seen :: int
  max_confidence :: rat
  areas :: "rat list"
  bboxes :: "rat list list"

text \<open>
  The property \<^verbatim>\<open>growth_rate\<close>. \<^verbatim>\<open>areas[:n]\<close> is \<open>take n\<close>, and
  \<^verbatim>\<open>areas[-n:]\<close> with \<open>0 < n \<le> len(areas)\<close> is \<open>drop (len - n)\<close>.
\<close>

definition growth_rate :: "defect_track \<Rightarrow> rat" where
  "growth_rate t =
     (if length (areas t) < 2 then 0
      else
        (let n = min 3 (length (areas t));
             start_avg = sum_list (take n (areas t)) / of_nat n;
             end_avg = sum_list (drop (length (areas t) - n) (areas t)) / of_nat n
         in if start_avg = 0 then 0 else (end_avg - start_avg) / start_avg))"

text \<open>
  \<^verbatim>\<open>calculate_iou\<close>. It reads the indices 0 to 3 of both boxes; on a box with fewer
  than four elements one of these reads raises \<^verbatim>\<open>IndexError\<close>.
\<close>

definition calculate_iou :: "rat list \<Rightarrow> rat list \<Rightarrow> py_error + rat" where
  "calculate_iou box1 box2 =
     (if length box1 < 4 \<or> length box2 < 4 then Inl IndexError
      else
        (let x1 = max (box1 ! 0) (box2 ! 0);
             y1 = max (box1 ! 1) (box2 ! 1);
             x2 = min (box1 ! 2) (box2 ! 2);
             y2 = min (box1 ! 3) (box2 ! 3);
             inter = max 0 (x2 - x1) * max 0 (y2 - y1);
             area1 = (box1 ! 2 - box1 ! 0) * (box1 ! 3 - box1 ! 1);
             area2 = (box2 ! 2 - box2 ! 0) * (box2 ! 3 - box2 ! 1);
             union_area = area1 + area2 - inter
         in Inr (if 0 < union_area then inter / union_area else 0)))"

text \<open>\<^verbatim>\<open>(bbox[2] - bbox[0]) * (bbox[3] - bbox[1])\<close> of a detection's box.\<close>

definition bbox_area :: "rat list \<Rightarrow> py_error + rat" where
  "bbox_area b =
     (if length b < 4 then Inl IndexError else Inr ((b ! 2 - b ! 0) * (b ! 3 - b ! 1)))"

record tracker =
  tracks :: "defect_track list"
  next_id :: int
  iou_threshold :: rat
  max_dropout :: int

text \<open>\<^verbatim>\<open>TemporalTracker()\<close> with the default arguments.\<close>

definition new_tracker :: tracker where
  "new_tracker = \<lparr>tracks = [], next_id = 1, iou_threshold = 3 / 10, max_dropout = 5\<rparr>"

text \<open>
  \<^verbatim>\<open>DefectTrack\<close> is declared with a bare \<^verbatim>\<open>@dataclass\<close>, that is with
  \<^verbatim>\<open>eq=True\<close> and \<^verbatim>\<open>frozen=False\<close>: Python then sets its \<^verbatim>\<open>__hash__\<close> to
  \<^verbatim>\<open>None\<close>, and hashing an instance raises \<^verbatim>\<open>TypeError\<close>. Both
  \<^verbatim>\<open>track in matched_tracks\<close> and \<^verbatim>\<open>matched_tracks.add(best_track)\<close> hash the
  track first, also when the set is empty.
\<close>

definition hash_track :: "defect_track \<Rightarrow> py_error + int" where
  "hash_track t = Inl TypeError"

text \<open>
  The tracks are objects that \<^verbatim>\<open>self.tracks\<close> and \<^verbatim>\<open>active_tracks\<close> share; a
  track is named by its position in \<^verbatim>\<open>self.tracks\<close>. The inner loop of
  \<^verbatim>\<open>update\<close> over the active tracks, for one detection with box \<open>b\<close>; its state is
  \<^verbatim>\<open>best_iou\<close> and \<^verbatim>\<open>best_track\<close>.
\<close>

fun find_best ::
  "defect_track list \<Rightarrow> rat list \<Rightarrow> detection \<Rightarrow> nat list \<Rightarrow> nat list \<Rightarrow> rat \<times> nat option
     \<Rightarrow> py_error + rat \<times> nat option" where
  "find_best trs b det matched [] best = Inr best"
| "find_best trs b det matched (k # ks) (best_iou, best_track) =
     (case hash_track (trs ! k) of
        Inl e \<Rightarrow> Inl e
      | Inr h \<Rightarrow>
          if k \<in> set matched then find_best trs b det matched ks (best_iou, best_track)
          else
            (case det_class det of
               None \<Rightarrow> Inl KeyError
             | Some c \<Rightarrow>
                 if defect_class (trs ! k) \<noteq> c
                 then find_best trs b det matched ks (best_iou, best_track)
                 else if bboxes (trs ! k) = []
                 then find_best trs b det matched ks (best_iou, best_track)
                 else
                   (case calculate_iou b (last (bboxes (trs ! k))) of
                      Inl e \<Rightarrow> Inl e
                    | Inr iou \<Rightarrow>
                        if best_iou < iou then find_best trs b det matched ks (iou, Some k)
                        else find_best trs b det matched ks (best_iou, best_track))))"

text \<open>The update of the matched track \<open>k\<close> by a detection.\<close>

definition bind_track :: "int \<Rightarrow> rat \<Rightarrow> rat list \<Rightarrow> rat \<Rightarrow> defect_track \<Rightarrow> defect_track" where
  "bind_track frame_id conf b area t =
     t\<lparr>last_frame := frame_id, frames_seen := frames_seen t + 1,
       max_confidence := max (max_confidence t) conf,
       bboxes := bboxes t @ [b], areas := areas t @ [area]\<rparr>"

text \<open>
  The first loop of \<^verbatim>\<open>update\<close>, over the enumerated detections. Its state is the
  tracks, \<^verbatim>\<open>assigned_det_indices\<close> and \<^verbatim>\<open>matched_tracks\<close>.
\<close>

fun match_detections ::
  "rat \<Rightarrow> int \<Rightarrow> nat list \<Rightarrow> (nat \<times> detection) list
     \<Rightarrow> defect_track list \<times> nat list \<times> nat list
     \<Rightarrow> py_error + defect_track list \<times> nat list \<times> nat list" where
  "match_detections thr frame_id active [] st = Inr st"
| "match_detections thr frame_id active ((i, det) # dets) (trs, assigned, matched) =
     (case bbox det of
        None \<Rightarrow> Inl KeyError
      | Some b \<Rightarrow>
          (case bbox_area b of
             Inl e \<Rightarrow> Inl e
           | Inr area \<Rightarrow>
               (case find_best trs b det matched active (0, None) of
                  Inl e \<Rightarrow> Inl e
                | Inr (best_iou, best_track) \<Rightarrow>
                    (case best_track of
                       None \<Rightarrow> match_detections thr frame_id active dets (trs, assigned, matched)
                     | Some k \<Rightarrow>
                         if thr \<le> best_iou
                         then
                           (case confidence det of
                              None \<Rightarrow> Inl KeyError
                            | Some conf \<Rightarrow>
                                (case hash_track (trs ! k) of
                                   Inl e \<Rightarrow> Inl e
                                 | Inr h \<Rightarrow>
                                     match_detections thr frame_id active dets
                                       (trs[k := bind_track frame_id conf b area (trs ! k)],
                                        assigned @ [i], matched @ [k])))
                         else match_detections thr frame_id active dets
                                (trs, assigned, matched)))))"

text \<open>
  The second loop of \<^verbatim>\<open>update\<close>: a new track for each detection that was not
  assigned. Its state is \<^verbatim>\<open>self.tracks\<close> and \<^verbatim>\<open>self.next_id\<close>.
\<close>

fun create_tracks ::
  "int \<Rightarrow> nat list \<Rightarrow> (nat \<times> detection) list \<Rightarrow> defect_track list \<times> int
     \<Rightarrow> py_error + defect_track list \<times> int" where
  "create_tracks frame_id assigned [] st = Inr st"
| "create_tracks frame_id assigned ((i, det) # dets) (trs, nid) =
     (if i \<in> set assigned then create_tracks frame_id assigned dets (trs, nid)
      else
        (case bbox det of
           None \<Rightarrow> Inl KeyError
         | Some b \<Rightarrow>
             (case bbox_area b of
                Inl e \<Rightarrow> Inl e
              | Inr area \<Rightarrow>
                  (case det_class det of
                     None \<Rightarrow> Inl KeyError
                   | Some c \<Rightarrow>
                       (case confidence det of
                          None \<Rightarrow> Inl KeyError
                        | Some conf \<Rightarrow>
                            create_tracks frame_id assigned dets
                              (trs @ [\<lparr>track_id = nid, defect_class = c, first_frame = frame_id,
                                       last_frame = frame_id, frames_seen = 1,
                                       max_confidence = conf, areas = [area], bboxes = [b]\<rparr>],
                               nid + 1))))))"

text \<open>
  \<^verbatim>\<open>sorted(detections, key=lambda x: x['confidence'], reverse=True)\<close>: the key of
  every detection is read first (\<^verbatim>\<open>KeyError\<close> when absent); the sort is stable, so
  detections of equal confidence keep their order.
\<close>

definition sort_detections :: "detection list \<Rightarrow> py_error + detection list" where
  "sort_detections detections =
     (case keys_of confidence detections of
        Inl e \<Rightarrow> Inl e
      | Inr cs \<Rightarrow> Inr (map snd (sort_key (\<lambda>p. - fst p) (zip cs detections))))"

text \<open>
  \<^verbatim>\<open>TemporalTracker.update\<close>. An exception is the value \<open>Inl\<close>; the tracks that
  the second loop had appended before the exception are not kept in it.
\<close>

definition update :: "tracker \<Rightarrow> detection list \<Rightarrow> int \<Rightarrow> py_error + tracker" where
  "update tr detections frame_id =
     (let active = filter (\<lambda>k. frame_id - last_frame (tracks tr ! k) \<le> max_dropout tr)
                     [0 ..< length (tracks tr)]
      in (case sort_detections detections of
            Inl e \<Rightarrow> Inl e
          | Inr sorted_dets \<Rightarrow>
              (case match_detections (iou_threshold tr) frame_id active
                      (enumerate 0 sorted_dets) (tracks tr, [], []) of
                 Inl e \<Rightarrow> Inl e
               | Inr (trs, assigned, matched) \<Rightarrow>
                   (case create_tracks frame_id assigned (enumerate 0 sorted_dets)
                           (trs, next_id tr) of
                      Inl e \<Rightarrow> Inl e
                    | Inr (trs', nid) \<Rightarrow> Inr (tr\<lparr>tracks := trs', next_id := nid\<rparr>)))))"

section \<open>The scorer on a box of any value\<close>

text \<open>
  The record \<open>detection\<close> types the value of the key \<^verbatim>\<open>bbox\<close> as a list of numbers.
  A detection is a dictionary, and the key may hold any value. For what the scorer does
  with such a value, \<^verbatim>\<open>calculate_score\<close> is modelled a second time, over detections
  whose box is any value that decoded JSON can hold: null, a number (a boolean is the
  number 1 or 0), a string, a list, or an object with string keys. The other keys keep
  their types. On a box that is a list of numbers the two models agree
  (\<open>calculate_score_json_agrees\<close> below).
\<close>

datatype py_val =
  PyNone | PyNum rat | PyStr string | PyList "py_val list" | PyDict "(string \<times> py_val) list"

text \<open>\<^verbatim>\<open>len(v)\<close>.\<close>

fun py_len :: "py_val \<Rightarrow> py_error + nat" where
  "py_len PyNone = Inl TypeError"
| "py_len (PyNum x) = Inl TypeError"
| "py_len (PyStr s) = Inr (length s)"
| "py_len (PyList vs) = Inr (length vs)"
| "py_len (PyDict kvs) = Inr (length kvs)"

text \<open>\<^verbatim>\<open>v[i]\<close> for an index \<open>i\<close> that is not negative.\<close>

fun py_item :: "py_val \<Rightarrow> nat \<Rightarrow> py_error + py_val" where
  "py_item PyNone i = Inl TypeError"
| "py_item (PyNum x) i = Inl TypeError"
| "py_item (PyStr s) i = (if i < length s then Inr (PyStr [s ! i]) else Inl IndexError)"
| "py_item (PyList vs) i = (if i < length vs then Inr (vs ! i) else Inl IndexError)"
| "py_item (PyDict kvs) i = Inl KeyError"

text \<open>\<^verbatim>\<open>x - y\<close>: defined between numbers only.\<close>

fun py_sub :: "py_val \<Rightarrow> py_val \<Rightarrow> py_error + rat" where
  "py_sub (PyNum x) (PyNum y) = Inr (x - y)"
| "py_sub x y = Inl TypeError"

record json_detection =
  jd_class :: "string option"
  jd_confidence :: "rat option"
  jd_bbox :: "py_val option"
  jd_affected_area_percent :: "rat option"

text \<open>
  The typed reading of such a detection, with the box when it is a list of numbers, and
  the detection that a typed one stands for.
\<close>

fun number_of :: "py_val \<Rightarrow> rat option" where
  "number_of (PyNum x) = Some x"
| "number_of v = None"

fun numbers_of :: "py_val \<Rightarrow> rat list option" where
  "numbers_of (PyList vs) = those (map number_of vs)"
| "numbers_of v = None"

definition as_detection :: "json_detection \<Rightarrow> detection" where
  "as_detection d =
     \<lparr>det_class = jd_class d, confidence = jd_confidence d,
      bbox = (case jd_bbox d of None \<Rightarrow> None | Some v \<Rightarrow> numbers_of v),
      affected_area_percent = jd_affected_area_percent d\<rparr>"

definition of_detection :: "detection \<Rightarrow> json_detection" where
  "of_detection d =
     \<lparr>jd_class = det_class d, jd_confidence = confidence d,
      jd_bbox = (case bbox d of None \<Rightarrow> None | Some b \<Rightarrow> Some (PyList (map PyNum b))),
      jd_affected_area_percent = affected_area_percent d\<rparr>"

text \<open>\<^verbatim>\<open>bbox[i] - bbox[j]\<close>.\<close>

definition box_diff :: "py_val \<Rightarrow> nat \<Rightarrow> nat \<Rightarrow> py_error + rat" where
  "box_diff b i j =
     (case py_item b i of
        Inl e \<Rightarrow> Inl e
      | Inr x \<Rightarrow> (case py_item b j of Inl e \<Rightarrow> Inl e | Inr y \<Rightarrow> py_sub x y))"

text \<open>The area factor of one defect, as in \<open>area_factor\<close>.\<close>

definition area_factor_json :: "int \<Rightarrow> json_detection \<Rightarrow> py_error + rat" where
  "area_factor_json image_area defect =
     (case jd_affected_area_percent defect of
        Some p \<Rightarrow> Inr (p / 10)
      | None \<Rightarrow>
          (let b = (case jd_bbox defect of
                      None \<Rightarrow> PyList [PyNum 0, PyNum 0, PyNum 0, PyNum 0]
                    | Some v \<Rightarrow> v)
           in case py_len b of
                Inl e \<Rightarrow> Inl e
              | Inr n \<Rightarrow>
                  if n = 4
                  then (case box_diff b 2 0 of
                          Inl e \<Rightarrow> Inl e
                        | Inr w \<Rightarrow>
                            (case box_diff b 3 1 of
                               Inl e \<Rightarrow> Inl e
                             | Inr h \<Rightarrow>
                                 if image_area = 0 then Inl ZeroDivisionError
                                 else Inr (w * h / of_int image_area * 10)))
                  else Inr 1))"

text \<open>The penalty of one defect, as in \<open>defect_penalty\<close>.\<close>

definition defect_penalty_json ::
  "scorer \<Rightarrow> (string \<times> rat) list \<Rightarrow> int \<Rightarrow> json_detection \<Rightarrow> py_error + rat" where
  "defect_penalty_json sc climate_adjustments image_area defect =
     (case area_factor_json image_area defect of
        Inl e \<Rightarrow> Inl e
      | Inr af \<Rightarrow>
          (let weight = weight_of (as_detection defect);
               base_penalty = severity weight * 3;
               area_penalty = af * area_multiplier weight;
               confidence_factor =
                 confidence_of (as_detection defect) * confidence_weight sc
                   + (1 - confidence_weight sc)
           in Inr ((base_penalty + area_penalty) * confidence_factor
                     * climate_mult climate_adjustments (as_detection defect))))"

text \<open>The loop over the defects, as in \<open>score_defects\<close>.\<close>

fun score_defects_json ::
  "scorer \<Rightarrow> (string \<times> rat) list \<Rightarrow> int \<Rightarrow> json_detection list
     \<Rightarrow> rat \<times> breakdown_entry list \<times> (string \<times> rat) list
     \<Rightarrow> py_error + rat \<times> breakdown_entry list \<times> (string \<times> rat) list" where
  "score_defects_json sc adj image_area [] st = Inr st"
| "score_defects_json sc adj image_area (defect # defects) (tp, bd, by_type) =
     (case defect_penalty_json sc adj image_area defect of
        Inl e \<Rightarrow> Inl e
      | Inr p \<Rightarrow>
          score_defects_json sc adj image_area defects
            (tp + p, bd @ [breakdown_of adj (as_detection defect) p],
             dict_add by_type (defect_class_of (as_detection defect)) p))"

text \<open>
  \<^verbatim>\<open>calculate_score\<close>, as in \<open>calculate_score\<close>. The collaborator, a parameter of
  the model, is given the typed reading of the detections.
\<close>

definition calculate_score_json ::
  "cortex option \<Rightarrow> scorer \<Rightarrow> json_detection list \<Rightarrow> int \<Rightarrow> user_context option
     \<Rightarrow> py_error + score_result \<times> scorer" where
  "calculate_score_json imported sc defects image_area ctx =
     (if defects = [] then Inr (base_result, sc)
      else
        (case score_defects_json sc (dict_get CLIMATE_FACTORS (climate_of ctx) []) image_area
                defects (0, [], []) of
           Inl e \<Rightarrow> Inl e
         | Inr (total0, bd, by_type) \<Rightarrow>
             (let age_penalty = age_penalty_of ctx;
                  total1 = total0 + age_penalty;
                  defect_penalty_capped = min (total1 - age_penalty) (max_defects_penalty sc);
                  total2 = defect_penalty_capped + age_penalty;
                  final_score = py_round (max 0 (base_score sc - total2));
                  (cx, sc') = get_cortex_analytics imported sc;
                  cortex_answer = (case cx of None \<Rightarrow> None
                        | Some f \<Rightarrow> f (map as_detection defects) ctx);
                  ai = (case cortex_answer of None \<Rightarrow> None
                        | Some r \<Rightarrow> Some (risk_explanation r));
                  actions = (case cortex_answer of None \<Rightarrow> actions_of final_score
                        | Some r \<Rightarrow>
                            if cx_recommended_actions r \<noteq> [] then cx_recommended_actions r
                            else actions_of final_score)
              in Inr (\<lparr>score = final_score,
                       risk_level = risk_level_of final_score,
                       defect_count = int (length defects),
                       total_penalty = Some (py_round2 total2),
                       penalty_breakdown =
                         \<lparr>pb_defects = py_round2 defect_penalty_capped,
                          pb_age_factor = py_round2 age_penalty,
                          pb_climate_factor = None,
                          pb_by_defect_type = Some (map (\<lambda>(k, v). (k, py_round2 v)) by_type)\<rparr>,
                       breakdown = bd,
                       summary = summary_of final_score,
                       ai_explanation = ai,
                       recommended_actions = actions,
                       user_context_applied = Some (ctx \<noteq> None)\<rparr>, sc'))))"

section \<open>Notions used in the statements\<close>

text \<open>
  The defects for which \<^verbatim>\<open>calculate_score\<close> divides by \<^verbatim>\<open>image_area\<close>: no
  \<^verbatim>\<open>affected_area_percent\<close>, and a box of four elements (the default box included).
\<close>

definition needs_image_area :: "detection \<Rightarrow> bool" where
  "needs_image_area d =
     (affected_area_percent d = None \<and> (case bbox d of None \<Rightarrow> True | Some b \<Rightarrow> length b = 4))"

text \<open>
  The penalty of one defect as a number (0 where the source raises), and the
  specification's \<^verbatim>\<open>raw_defect_total\<close>: the sum of the penalties of all detections.
\<close>

definition penalty_value :: "scorer \<Rightarrow> (string \<times> rat) list \<Rightarrow> int \<Rightarrow> detection \<Rightarrow> rat" where
  "penalty_value sc adj image_area d =
     (case defect_penalty sc adj image_area d of Inl e \<Rightarrow> 0 | Inr p \<Rightarrow> p)"

definition raw_defect_total :: "scorer \<Rightarrow> user_context option \<Rightarrow> int \<Rightarrow> detection list \<Rightarrow> rat" where
  "raw_defect_total sc ctx image_area defects =
     sum_list (map (penalty_value sc (dict_get CLIMATE_FACTORS (climate_of ctx) []) image_area)
       defects)"


text \<open>The score of an outcome of \<^verbatim>\<open>calculate_score\<close>.\<close>

definition result_score :: "py_error + score_result \<times> scorer \<Rightarrow> py_error + int" where
  "result_score out = map_sum id (\<lambda>p. score (fst p)) out"

text \<open>The detection and the context of the specification's end-to-end example.\<close>

definition mold_detection :: "rat list option \<Rightarrow> detection" where
  "mold_detection b = \<lparr>det_class = Some ''mold'', confidence = Some (9 / 10), bbox = b,
     affected_area_percent = Some 6\<rparr>"

definition hot_humid :: "user_context option" where
  "hot_humid = Some \<lparr>climate = Some ''hot_humid'', building_age = None\<rparr>"

text \<open>A crack given by its box only.\<close>

definition crack_detection :: "rat list \<Rightarrow> detection" where
  "crack_detection b = \<lparr>det_class = Some ''crack'', confidence = Some (9 / 10), bbox = Some b,
     affected_area_percent = None\<rparr>"

text \<open>
  The specification's window averages of a track's area samples \<open>xs\<close>: the average of the
  first \<open>k\<close> samples and the average of the last \<open>k\<close> samples.
\<close>

definition first_avg :: "nat \<Rightarrow> rat list \<Rightarrow> rat" where
  "first_avg k xs = sum_list (map (\<lambda>i. xs ! i) [0 ..< k]) / of_nat k"

definition last_avg :: "nat \<Rightarrow> rat list \<Rightarrow> rat" where
  "last_avg k xs = sum_list (map (\<lambda>i. xs ! (length xs - k + i)) [0 ..< k]) / of_nat k"

text \<open>A track with given area samples, and a per-frame result with given score and count.\<close>

definition track_with_areas :: "rat list \<Rightarrow> defect_track" where
  "track_with_areas xs = \<lparr>track_id = 1, defect_class = ''crack'', first_frame = 0,
     last_frame = int (length xs) - 1, frames_seen = int (length xs), max_confidence = 9 / 10,
     areas = xs, bboxes = []\<rparr>"

definition frame_with :: "int \<Rightarrow> int \<Rightarrow> frame_score" where
  "frame_with s n = \<lparr>fs_score = Some s, fs_defect_count = Some n, fs_breakdown = Some []\<rparr>"

text \<open>
  The frame \<^verbatim>\<open>{'score': s}\<close> of the specification's example, and a frame as
  \<^verbatim>\<open>_analyze_image\<close> of the deep analyzer builds it, with \<^verbatim>\<open>score\<close> and
  \<^verbatim>\<open>breakdown\<close>: neither has the key \<^verbatim>\<open>defect_count\<close>.
\<close>

definition bare_frame :: "int \<Rightarrow> frame_score" where
  "bare_frame s = \<lparr>fs_score = Some s, fs_defect_count = None, fs_breakdown = None\<rparr>"

definition image_frame :: "int \<Rightarrow> breakdown_entry list \<Rightarrow> frame_score" where
  "image_frame s bd = \<lparr>fs_score = Some s, fs_defect_count = None, fs_breakdown = Some bd\<rparr>"

text \<open>
  A detection as the data model describes it: a confidence in [0,1], an affected area
  percentage in [0,100], a box of four coordinates with \<open>x1 < x2\<close> and \<open>y1 < y2\<close>, each
  where the key is present.
\<close>

definition valid_detection :: "detection \<Rightarrow> bool" where
  "valid_detection d =
     ((case confidence d of None \<Rightarrow> True | Some c \<Rightarrow> 0 \<le> c \<and> c \<le> 1)
      \<and> (case affected_area_percent d of None \<Rightarrow> True | Some p \<Rightarrow> 0 \<le> p \<and> p \<le> 100)
      \<and> (case bbox d of None \<Rightarrow> True
          | Some b \<Rightarrow> length b = 4 \<and> b ! 0 < b ! 2 \<and> b ! 1 < b ! 3))"

text \<open>
  A configuration of the scorer with a confidence weight in [0,1], a cap that is not
  negative and a base score of at most 100; the default configuration is one.
\<close>

definition valid_config :: "scorer \<Rightarrow> bool" where
  "valid_config sc =
     (0 \<le> confidence_weight sc \<and> confidence_weight sc \<le> 1 \<and> 0 \<le> max_defects_penalty sc
      \<and> base_score sc \<le> 100)"

text \<open>
  Detection \<open>d'\<close> is detection \<open>d\<close> with a confidence or an affected area that is not
  smaller, the class being the same: the key \<^verbatim>\<open>confidence\<close> is in both or in neither,
  and where it is, it has not gone down; the key \<^verbatim>\<open>affected_area_percent\<close> is in both
  or in neither; where it is, it has not gone down, and where it is not, the key
  \<^verbatim>\<open>bbox\<close> is in both or in neither and the area of the box, width times height, has
  not gone down.
\<close>

definition increased :: "detection \<Rightarrow> detection \<Rightarrow> bool" where
  "increased d d' =
     (det_class d' = det_class d
      \<and> (case confidence d of
            None \<Rightarrow> confidence d' = None
          | Some c \<Rightarrow> (case confidence d' of None \<Rightarrow> False | Some c' \<Rightarrow> c \<le> c'))
      \<and> (case affected_area_percent d of
            Some p \<Rightarrow> (case affected_area_percent d' of None \<Rightarrow> False | Some p' \<Rightarrow> p \<le> p')
          | None \<Rightarrow>
              affected_area_percent d' = None
              \<and> (case bbox d of
                    None \<Rightarrow> bbox d' = None
                  | Some b \<Rightarrow>
                      (case bbox d' of
                         None \<Rightarrow> False
                       | Some b' \<Rightarrow>
                           (b ! 2 - b ! 0) * (b ! 3 - b ! 1)
                             \<le> (b' ! 2 - b' ! 0) * (b' ! 3 - b' ! 1)))))"



definition heavy_mold :: detection where
  "heavy_mold = \<lparr>det_class = Some ''Mold'', confidence = Some (9 / 10), bbox = None,
     affected_area_percent = Some 100\<rparr>"

definition larger_crack :: detection where
  "larger_crack = (crack_detection [0, 0, 20, 20])\<lparr>confidence := Some 1\<rparr>"

definition heavier_mold :: detection where
  "heavier_mold = (mold_detection None)\<lparr>affected_area_percent := Some 60\<rparr>"

text \<open>
  A Cortex collaborator that answers every call with the explanation \<open>s\<close> and the
  actions \<open>acts\<close>, and a scorer with the collaborator disabled.
\<close>

definition cortex_says :: "string \<Rightarrow> string list \<Rightarrow> cortex" where
  "cortex_says s acts defects ctx = Some \<lparr>risk_explanation = s, cx_recommended_actions = acts\<rparr>"

definition quiet_scorer :: scorer where
  "quiet_scorer = default_scorer\<lparr>enable_cortex_ai := False\<rparr>"

text \<open>
  A result without the two fields that \<^verbatim>\<open>calculate_score\<close> takes from the
  collaborator, and the projections of an outcome to that part, to the explanation and to
  the recommended actions.
\<close>

definition deterministic_part :: "score_result \<Rightarrow> score_result" where
  "deterministic_part r = r\<lparr>ai_explanation := None, recommended_actions := []\<rparr>"

definition deterministic_result ::
  "py_error + score_result \<times> scorer \<Rightarrow> py_error + score_result" where
  "deterministic_result out = map_sum id (\<lambda>p. deterministic_part (fst p)) out"

definition result_explanation :: "py_error + score_result \<times> scorer \<Rightarrow> py_error + string option" where
  "result_explanation out = map_sum id (\<lambda>p. ai_explanation (fst p)) out"

definition result_actions :: "py_error + score_result \<times> scorer \<Rightarrow> py_error + string list" where
  "result_actions out = map_sum id (\<lambda>p. recommended_actions (fst p)) out"

text \<open>
  The collaborator that the scorer object holds after a call on a non-empty list of
  defects: the one it held before, else the imported one when the flag is on.
\<close>

definition held_after :: "cortex option \<Rightarrow> scorer \<Rightarrow> cortex option" where
  "held_after imported sc =
     (case cortex_analytics sc of
        Some f \<Rightarrow> Some f
      | None \<Rightarrow> if enable_cortex_ai sc then imported else None)"



definition tracker_after_first :: tracker where
  "tracker_after_first =
     \<lparr>tracks = [\<lparr>track_id = 1, defect_class = ''crack'', first_frame = 0, last_frame = 0,
                frames_seen = 1, max_confidence = 9 / 10, areas = [100],
                bboxes = [[0, 0, 10, 10]]\<rparr>],
      next_id = 2, iou_threshold = 3 / 10, max_dropout = 5\<rparr>"



section \<open>The scorer's loop and its errors\<close>

lemma area_factor_Inl:
  "(area_factor a d = Inl e) = (e = ZeroDivisionError \<and> a = 0 \<and> needs_image_area d)"
  by (auto simp: area_factor_def needs_image_area_def Let_def split: option.splits)

lemma defect_penalty_Inl:
  "(defect_penalty sc adj a d = Inl e) = (e = ZeroDivisionError \<and> a = 0 \<and> needs_image_area d)"
proof -
  have "(defect_penalty sc adj a d = Inl e) = (area_factor a d = Inl e)"
    by (simp add: defect_penalty_def Let_def split: sum.splits)
  then show ?thesis by (simp add: area_factor_Inl)
qed

lemma defect_penalty_Inr:
  assumes "\<not> (a = 0 \<and> needs_image_area d)"
  shows "defect_penalty sc adj a d = Inr (penalty_value sc adj a d)"
proof (cases "defect_penalty sc adj a d")
  case (Inl e)
  with assms show ?thesis by (simp add: defect_penalty_Inl)
next
  case (Inr p)
  then show ?thesis by (simp add: penalty_value_def)
qed

lemma score_defects_Inr:
  assumes "\<forall>d\<in>set ds. \<not> (a = 0 \<and> needs_image_area d)"
  shows "\<exists>bd' bt'. score_defects sc adj a ds (tp, bd, bt)
           = Inr (tp + sum_list (map (penalty_value sc adj a) ds), bd', bt')"
  using assms
proof (induction ds arbitrary: tp bd bt)
  case Nil
  then show ?case by simp
next
  case (Cons d ds)
  have p: "defect_penalty sc adj a d = Inr (penalty_value sc adj a d)"
    using Cons.prems by (simp add: defect_penalty_Inr)
  obtain bd' bt' where
    "score_defects sc adj a ds (tp + penalty_value sc adj a d,
        bd @ [breakdown_of adj d (penalty_value sc adj a d)],
        dict_add bt (defect_class_of d) (penalty_value sc adj a d))
      = Inr (tp + penalty_value sc adj a d + sum_list (map (penalty_value sc adj a) ds), bd', bt')"
    using Cons.IH Cons.prems by (metis list.set_intros(2))
  then show ?case by (simp add: p add.assoc)
qed


lemma calculate_score_Inr:
  assumes "ds \<noteq> []" and "\<forall>d\<in>set ds. \<not> (a = 0 \<and> needs_image_area d)"
  shows "\<exists>r sc'. calculate_score imported sc ds a ctx = Inr (r, sc')
     \<and> score r = py_round (max 0 (base_score sc
          - (min (raw_defect_total sc ctx a ds) (max_defects_penalty sc) + age_penalty_of ctx)))
     \<and> pb_defects (penalty_breakdown r)
          = py_round2 (min (raw_defect_total sc ctx a ds) (max_defects_penalty sc))
     \<and> pb_age_factor (penalty_breakdown r) = py_round2 (age_penalty_of ctx)
     \<and> risk_level r = risk_level_of (score r)
     \<and> defect_count r = int (length ds)"
proof -
  obtain bd' bt' where sd:
    "score_defects sc (dict_get CLIMATE_FACTORS (climate_of ctx) []) a ds (0, [], [])
       = Inr (0 + raw_defect_total sc ctx a ds, bd', bt')"
    unfolding raw_defect_total_def using score_defects_Inr [OF assms(2)] by blast
  show ?thesis
    using assms(1) by (simp add: calculate_score_def sd Let_def split: prod.splits)
qed



section \<open>Evaluations used below\<close>

lemma lower_mold: "lower ''mold'' = ''mold''"
  by code_simp

lemma lower_crack: "lower ''crack'' = ''crack''"
  by code_simp

lemma default_scorer_fields:
  "base_score default_scorer = 100" "max_defects_penalty default_scorer = 70"
  "confidence_weight default_scorer = 4 / 5" "enable_cortex_ai default_scorer"
  "cortex_analytics default_scorer = None"
  by (simp_all add: default_scorer_def)

lemma mold_penalty:
  "defect_penalty default_scorer adj image_area (mold_detection b)
     = Inr (1518 / 100 * dict_get adj ''mold'' 1)"
  by (simp add: defect_penalty_def area_factor_def weight_of_def defect_class_of_def lower_mold
      dict_get_def DEFECT_WEIGHTS_def climate_mult_def confidence_of_def
      default_scorer_def mold_detection_def)

lemma hot_humid_adj:
  "dict_get (dict_get CLIMATE_FACTORS (climate_of hot_humid) []) ''mold'' 1 = 3 / 2"
  by (simp add: hot_humid_def climate_of_def dict_get_def CLIMATE_FACTORS_def)

lemma no_context_adj: "dict_get CLIMATE_FACTORS (climate_of None) [] = []"
  by (simp add: climate_of_def dict_get_def CLIMATE_FACTORS_def)

section \<open>The empty list of frames\<close>

text \<open>
  C10: \<^verbatim>\<open>aggregate_scores\<close> on an empty list returns what \<^verbatim>\<open>calculate_score\<close>
  returns on an empty list of detections, for any image area and context: the result for
  no defects, with score 100, risk level "Low Risk" and defect count 0. The scorer object
  is unchanged.
\<close>

theorem aggregate_scores_empty:
  "aggregate_scores imported sc [] = Inr (NoFrames base_result, sc)
   \<and> calculate_score imported sc [] image_area ctx = Inr (base_result, sc)
   \<and> score base_result = 100 \<and> risk_level base_result = ''Low Risk''
   \<and> defect_count base_result = 0"
  by (simp add: aggregate_scores_def calculate_score_def base_result_def)

section \<open>The end-to-end example\<close>

text \<open>
  C9: one detection of class "mold" with confidence 0.9 and 6 percent of affected area, in
  the climate "hot_humid" with no building age, under the default configuration, whatever
  its box, the image area and the Cortex collaborator: the penalty of the defect is
  (5.0*3 + 0.6*2.5) * (0.9*0.8 + 0.2) * 1.5 = 22.77, below the cap of 70; the reported
  defect penalty is 22.77, the score 77 and the risk level "Low Risk".
\<close>

theorem mold_end_to_end:
  "\<exists>r sc'.
     calculate_score imported default_scorer [mold_detection b] image_area hot_humid = Inr (r, sc')
     \<and> defect_penalty default_scorer (dict_get CLIMATE_FACTORS (climate_of hot_humid) [])
           image_area (mold_detection b)
         = Inr ((5 * 3 + 6 / 10 * (5 / 2)) * (9 / 10 * (4 / 5) + (1 - 4 / 5)) * (3 / 2))
     \<and> (5 * 3 + 6 / 10 * (5 / 2)) * (9 / 10 * (4 / 5) + (1 - 4 / 5)) * (3 / 2) = (2277 / 100 :: rat)
     \<and> (2277 / 100 :: rat) < max_defects_penalty default_scorer
     \<and> pb_defects (penalty_breakdown r) = 2277 / 100
     \<and> score r = 77 \<and> risk_level r = ''Low Risk''"
proof -
  have nd: "\<forall>d\<in>set [mold_detection b]. \<not> (image_area = 0 \<and> needs_image_area d)"
    by (simp add: needs_image_area_def mold_detection_def)
  have raw: "raw_defect_total default_scorer hot_humid image_area [mold_detection b] = 2277 / 100"
    by (simp add: raw_defect_total_def penalty_value_def mold_penalty hot_humid_adj)
  have r1: "py_round (7723 / 100) = 77" by code_simp
  have r2: "py_round2 (2277 / 100) = 2277 / 100" by code_simp
  have age: "age_penalty_of hot_humid = 0"
    by (simp add: age_penalty_of_def hot_humid_def)
  obtain r sc' where
    c: "calculate_score imported default_scorer [mold_detection b] image_area hot_humid = Inr (r, sc')"
    and s: "score r = py_round (max 0 (base_score default_scorer
          - (min (raw_defect_total default_scorer hot_humid image_area [mold_detection b])
               (max_defects_penalty default_scorer) + age_penalty_of hot_humid)))"
    and p: "pb_defects (penalty_breakdown r)
          = py_round2 (min (raw_defect_total default_scorer hot_humid image_area [mold_detection b])
              (max_defects_penalty default_scorer))"
    and l: "risk_level r = risk_level_of (score r)"
    using calculate_score_Inr [OF _ nd, of imported default_scorer hot_humid] by auto
  have s77: "score r = 77"
    using s by (simp add: raw age default_scorer_fields r1)
  have p22: "pb_defects (penalty_breakdown r) = 2277 / 100"
    using p by (simp add: raw default_scorer_fields r2)
  have low: "risk_level r = ''Low Risk''"
    using l by (simp add: s77 risk_level_of_def)
  have pen: "defect_penalty default_scorer (dict_get CLIMATE_FACTORS (climate_of hot_humid) [])
           image_area (mold_detection b)
         = Inr ((5 * 3 + 6 / 10 * (5 / 2)) * (9 / 10 * (4 / 5) + (1 - 4 / 5)) * (3 / 2))"
    by (simp add: mold_penalty hot_humid_adj)
  have cap: "(2277 / 100 :: rat) < max_defects_penalty default_scorer"
    by (simp add: default_scorer_fields)
  show ?thesis using c pen cap p22 s77 low by simp
qed

section \<open>An image area that is not positive\<close>




section \<open>The growth rate of a track\<close>

lemma take_as_nths:
  assumes "k \<le> length xs"
  shows "take k xs = map (\<lambda>i. xs ! i) [0 ..< k]"
proof -
  have "take k xs = take k (map (\<lambda>i. xs ! i) [0 ..< length xs])"
    by (simp add: map_nth)
  also have "\<dots> = map (\<lambda>i. xs ! i) (take k [0 ..< length xs])"
    by (simp add: take_map)
  also have "take k [0 ..< length xs] = [0 ..< k]"
    using assms by simp
  finally show ?thesis .
qed

lemma drop_as_nths:
  assumes "k \<le> length xs"
  shows "drop (length xs - k) xs = map (\<lambda>i. xs ! (length xs - k + i)) [0 ..< k]"
proof (rule nth_equalityI)
  show "length (drop (length xs - k) xs) = length (map (\<lambda>i. xs ! (length xs - k + i)) [0 ..< k])"
    using assms by simp
next
  fix i assume "i < length (drop (length xs - k) xs)"
  then have "i < k" using assms by simp
  then show "drop (length xs - k) xs ! i = map (\<lambda>i. xs ! (length xs - k + i)) [0 ..< k] ! i"
    using assms by simp
qed

text \<open>
  C6: with \<open>n\<close> the number of area samples of a track and \<open>k = min 3 n\<close>, the growth
  rate is 0 when \<open>n < 2\<close> or when the average of the first \<open>k\<close> samples is 0; otherwise
  it is \<open>(end_avg - start_avg) / start_avg\<close>, with \<open>start_avg\<close> the average of the first
  \<open>k\<close> samples and \<open>end_avg\<close> the average of the last \<open>k\<close> samples.
\<close>

theorem growth_rate_windows:
  "growth_rate t =
     (let n = length (areas t); k = min 3 n;
          start_avg = first_avg k (areas t); end_avg = last_avg k (areas t)
      in if n < 2 \<or> start_avg = 0 then 0 else (end_avg - start_avg) / start_avg)"
proof -
  have k: "min 3 (length (areas t)) \<le> length (areas t)" by simp
  show ?thesis
    unfolding growth_rate_def first_avg_def last_avg_def Let_def
      take_as_nths [OF k, symmetric] drop_as_nths [OF k, symmetric]
    by simp
qed

theorem growth_rate_windows_witness:
  "growth_rate (track_with_areas [10, 20, 30, 40]) = 1 / 2
   \<and> first_avg 3 [10, 20, 30, 40] = 20 \<and> last_avg 3 [10, 20, 30, 40] = 30
   \<and> growth_rate (track_with_areas [7]) = 0
   \<and> growth_rate (track_with_areas [0, 0, 0, 5]) = 0"
proof -
  have a: "first_avg 3 [10, 20, 30, 40] = 20" "last_avg 3 [10, 20, 30, 40] = 30"
    by code_simp+
  have "(let n = length (areas (track_with_areas [10, 20, 30, 40])); k = min 3 n;
          start_avg = first_avg k (areas (track_with_areas [10, 20, 30, 40]));
          end_avg = last_avg k (areas (track_with_areas [10, 20, 30, 40]))
      in if n < 2 \<or> start_avg = 0 then 0 else (end_avg - start_avg) / start_avg) = 1 / 2"
    by code_simp
  then have g1: "growth_rate (track_with_areas [10, 20, 30, 40]) = 1 / 2"
    by (rule trans [OF growth_rate_windows])
  have "(let n = length (areas (track_with_areas [7])); k = min 3 n;
          start_avg = first_avg k (areas (track_with_areas [7]));
          end_avg = last_avg k (areas (track_with_areas [7]))
      in if n < 2 \<or> start_avg = 0 then 0 else (end_avg - start_avg) / start_avg) = 0"
    by code_simp
  then have g2: "growth_rate (track_with_areas [7]) = 0"
    by (rule trans [OF growth_rate_windows])
  have "(let n = length (areas (track_with_areas [0, 0, 0, 5])); k = min 3 n;
          start_avg = first_avg k (areas (track_with_areas [0, 0, 0, 5]));
          end_avg = last_avg k (areas (track_with_areas [0, 0, 0, 5]))
      in if n < 2 \<or> start_avg = 0 then 0 else (end_avg - start_avg) / start_avg) = 0"
    by code_simp
  then have g3: "growth_rate (track_with_areas [0, 0, 0, 5]) = 0"
    by (rule trans [OF growth_rate_windows])
  show ?thesis using a g1 g2 g3 by simp
qed

section \<open>Aggregation over frames\<close>

lemma keys_of_Inr:
  "(keys_of k xs = Inr vs) = (map k xs = map Some vs)"
proof (induction xs arbitrary: vs)
  case Nil
  then show ?case by auto
next
  case (Cons x xs)
  show ?case
  proof (cases "k x")
    case None
    then show ?thesis by auto
  next
    case (Some v)
    show ?thesis
    proof (cases "keys_of k xs")
      case (Inl e)
      then have "\<And>ws. map k xs \<noteq> map Some ws" using Cons.IH by simp
      then show ?thesis using Some Inl by (cases vs) auto
    next
      case (Inr ws)
      then have "map k xs = map Some ws" using Cons.IH by simp
      then show ?thesis using Some Inr by (cases vs) (auto simp: inj_map_eq_map)
    qed
  qed
qed

lemma py_min_Min: "xs \<noteq> [] \<Longrightarrow> py_min xs = Min (set xs)"
proof (induction xs rule: py_min.induct)
  case 1
  then show ?case by simp
next
  case (2 x)
  then show ?case by simp
next
  case (3 x y ys)
  then have ih: "py_min (y # ys) = Min (set (y # ys))" by simp
  have m: "Min (set (x # y # ys)) = min x (Min (set (y # ys)))"
    by (metis List.finite_set Min_insert list.distinct(1) list.simps(15) set_empty)
  have step: "py_min (x # y # ys) = min x (py_min (y # ys))"
    by (simp add: Let_def min_def)
  show ?case by (simp only: step ih m)
qed

text \<open>
  On frames that all have the keys \<^verbatim>\<open>score\<close> and \<^verbatim>\<open>defect_count\<close>, as the
  results of \<^verbatim>\<open>calculate_score\<close> have, \<^verbatim>\<open>aggregate_scores\<close> returns the minimum
  of the scores, their mean rounded (a tie to the even integer) and the risk level of the
  minimum.
\<close>

lemma aggregate_scores_min_mean:
  assumes "frame_scores \<noteq> []"
    and "map fs_score frame_scores = map Some scores"
    and "map fs_defect_count frame_scores = map Some counts"
  shows "\<exists>agg. aggregate_scores imported sc frame_scores = Inr (Session agg, sc)
     \<and> sa_score agg = Min (set scores)
     \<and> average_score agg = py_round (of_int (sum_list scores) / of_nat (length scores))
     \<and> sa_risk_level agg = risk_level_of (Min (set scores))"
proof -
  have len: "length frame_scores = length scores"
    using assms(2) by (metis length_map)
  then have ne: "scores \<noteq> []" using assms(1) by auto
  have k1: "keys_of fs_score frame_scores = Inr scores"
    using assms(2) by (simp add: keys_of_Inr)
  have k2: "keys_of fs_defect_count frame_scores = Inr counts"
    using assms(3) by (simp add: keys_of_Inr)
  show ?thesis
    using assms(1)
    by (simp add: aggregate_scores_def k1 k2 Let_def py_min_Min [OF ne] len risk_level_of_def)
qed

lemma aggregate_scores_examples:
  "\<exists>agg. aggregate_scores None default_scorer
            [frame_with 80 2, frame_with 40 5, frame_with 90 1]
          = Inr (Session agg, default_scorer)
     \<and> sa_score agg = 40 \<and> average_score agg = 70 \<and> sa_risk_level agg = ''Moderate Risk''"
  "\<exists>agg. aggregate_scores None default_scorer
            [frame_with 80 2, frame_with 41 5, frame_with 90 1]
          = Inr (Session agg, default_scorer)
     \<and> sa_score agg = 41 \<and> average_score agg = 70 \<and> sa_risk_level agg = ''Moderate Risk''"
  "\<exists>agg. aggregate_scores None default_scorer [frame_with 62 0, frame_with 65 0]
          = Inr (Session agg, default_scorer)
     \<and> sa_score agg = 62 \<and> average_score agg = 64 \<and> sa_risk_level agg = ''Low Risk''"
proof -
  have r: "py_round 70 = 70" "py_round (211 / 3) = 70" "py_round (127 / 2) = 64"
    by code_simp+
  show "\<exists>agg. aggregate_scores None default_scorer
            [frame_with 80 2, frame_with 40 5, frame_with 90 1]
          = Inr (Session agg, default_scorer)
     \<and> sa_score agg = 40 \<and> average_score agg = 70 \<and> sa_risk_level agg = ''Moderate Risk''"
    using aggregate_scores_min_mean [of "[frame_with 80 2, frame_with 40 5, frame_with 90 1]"
        "[80, 40, 90]" "[2, 5, 1]" None default_scorer]
    by (simp add: frame_with_def r risk_level_of_def)
  show "\<exists>agg. aggregate_scores None default_scorer
            [frame_with 80 2, frame_with 41 5, frame_with 90 1]
          = Inr (Session agg, default_scorer)
     \<and> sa_score agg = 41 \<and> average_score agg = 70 \<and> sa_risk_level agg = ''Moderate Risk''"
    using aggregate_scores_min_mean [of "[frame_with 80 2, frame_with 41 5, frame_with 90 1]"
        "[80, 41, 90]" "[2, 5, 1]" None default_scorer]
    by (simp add: frame_with_def r risk_level_of_def)
  show "\<exists>agg. aggregate_scores None default_scorer [frame_with 62 0, frame_with 65 0]
          = Inr (Session agg, default_scorer)
     \<and> sa_score agg = 62 \<and> average_score agg = 64 \<and> sa_risk_level agg = ''Low Risk''"
    using aggregate_scores_min_mean [of "[frame_with 62 0, frame_with 65 0]"
        "[62, 65]" "[0, 0]" None default_scorer]
    by (simp add: frame_with_def r risk_level_of_def)
qed

text \<open>
  A frame without the key \<^verbatim>\<open>defect_count\<close> makes \<^verbatim>\<open>aggregate_scores\<close> raise
  \<^verbatim>\<open>KeyError\<close>, once the scores have been read.
\<close>

lemma keys_of_missing:
  assumes "x \<in> set xs" and "k x = None"
  shows "keys_of k xs = Inl KeyError"
  using assms(1)
proof (induction xs)
  case Nil
  then show ?case by simp
next
  case (Cons y ys)
  show ?case
  proof (cases "k y")
    case None
    then show ?thesis by simp
  next
    case (Some v)
    then have "x \<in> set ys" using Cons.prems assms(2) by auto
    then have "keys_of k ys = Inl KeyError" by (rule Cons.IH)
    then show ?thesis by (simp add: Some)
  qed
qed

lemma aggregate_scores_without_count:
  assumes "fs \<in> set frame_scores" and "fs_defect_count fs = None"
  shows "aggregate_scores imported sc frame_scores = Inl KeyError"
proof -
  have ne: "frame_scores \<noteq> []" using assms(1) by auto
  have k: "keys_of fs_defect_count frame_scores = Inl KeyError"
    using assms by (rule keys_of_missing)
  show ?thesis
  proof (cases "keys_of fs_score frame_scores")
    case (Inl e)
    have "e = KeyError"
    proof (rule ccontr)
      assume "e \<noteq> KeyError"
      have "\<And>zs. keys_of fs_score zs = Inl e \<Longrightarrow> e = KeyError"
      proof -
        fix zs show "keys_of fs_score zs = Inl e \<Longrightarrow> e = KeyError"
          by (induction zs) (auto split: option.splits sum.splits)
      qed
      with Inl \<open>e \<noteq> KeyError\<close> show False by blast
    qed
    with Inl ne show ?thesis by (simp add: aggregate_scores_def)
  next
    case (Inr scores)
    with ne k show ?thesis by (simp add: aggregate_scores_def Let_def)
  qed
qed

text \<open>
  C2: \<^verbatim>\<open>aggregate_scores\<close> on the specification's example, the frames with the scores
  80, 40 and 90 and no other key, raises \<^verbatim>\<open>KeyError\<close> where the claim has it return
  the score 40, the average 70 and "Moderate Risk"; so it does on the frames that the deep
  analyzer builds from images.
\<close>

theorem aggregate_scores_example_raises:
  "aggregate_scores None default_scorer [bare_frame 80, bare_frame 40, bare_frame 90]
     = Inl KeyError
   \<and> aggregate_scores None default_scorer [image_frame 80 [], image_frame 40 [], image_frame 90 []]
     = Inl KeyError"
proof -
  have "aggregate_scores None default_scorer [bare_frame 80, bare_frame 40, bare_frame 90]
     = Inl KeyError"
    by (rule aggregate_scores_without_count [of "bare_frame 80"]) (simp_all add: bare_frame_def)
  moreover have "aggregate_scores None default_scorer
      [image_frame 80 [], image_frame 40 [], image_frame 90 []] = Inl KeyError"
    by (rule aggregate_scores_without_count [of "image_frame 80 []"])
      (simp_all add: image_frame_def)
  ultimately show ?thesis by simp
qed

section \<open>Rounding, and the sign and growth of a penalty\<close>

lemma py_round_mono:
  assumes "x \<le> y"
  shows "py_round x \<le> py_round y"
proof (cases "\<lfloor>x\<rfloor> = \<lfloor>y\<rfloor>")
  case True
  then have "x - of_int \<lfloor>x\<rfloor> \<le> y - of_int \<lfloor>y\<rfloor>" using assms by simp
  then show ?thesis by (auto simp: py_round_def Let_def True)
next
  case False
  have "\<lfloor>x\<rfloor> \<le> \<lfloor>y\<rfloor>" using assms by (rule floor_mono)
  with False have lt: "\<lfloor>x\<rfloor> + 1 \<le> \<lfloor>y\<rfloor>" by simp
  have a: "py_round x \<le> \<lfloor>x\<rfloor> + 1" by (simp add: py_round_def Let_def)
  have b: "\<lfloor>y\<rfloor> \<le> py_round y" by (simp add: py_round_def Let_def)
  from a lt b show ?thesis by linarith
qed

lemma py_round_of_int: "py_round (of_int n) = n"
  by (simp add: py_round_def Let_def)

lemma weight_of_nonneg: "0 \<le> severity (weight_of d) \<and> 0 \<le> area_multiplier (weight_of d)"
proof (cases "map_of DEFECT_WEIGHTS (defect_class_of d)")
  case None
  then show ?thesis by (simp add: weight_of_def dict_get_def default_weight_def)
next
  case (Some w)
  then have "(defect_class_of d, w) \<in> set DEFECT_WEIGHTS" by (rule map_of_SomeD)
  moreover have "\<forall>p\<in>set DEFECT_WEIGHTS. 0 \<le> severity (snd p) \<and> 0 \<le> area_multiplier (snd p)"
    by (simp add: DEFECT_WEIGHTS_def)
  ultimately have "0 \<le> severity w \<and> 0 \<le> area_multiplier w" by fastforce
  then show ?thesis by (simp add: weight_of_def dict_get_def Some)
qed

lemma climate_mult_nonneg: "0 \<le> climate_mult (dict_get CLIMATE_FACTORS c []) d"
proof (cases "map_of CLIMATE_FACTORS c")
  case None
  then show ?thesis by (simp add: climate_mult_def dict_get_def)
next
  case (Some adj)
  then have "(c, adj) \<in> set CLIMATE_FACTORS" by (rule map_of_SomeD)
  moreover have "\<forall>p\<in>set CLIMATE_FACTORS. \<forall>q\<in>set (snd p). 0 \<le> snd q"
    by (simp add: CLIMATE_FACTORS_def)
  ultimately have all: "\<forall>q\<in>set adj. 0 \<le> snd q" by fastforce
  show ?thesis
  proof (cases "map_of adj (defect_class_of d)")
    case None
    then show ?thesis by (simp add: climate_mult_def dict_get_def Some)
  next
    case inner: (Some v)
    then have "(defect_class_of d, v) \<in> set adj" by (rule map_of_SomeD)
    with all have "0 \<le> v" by fastforce
    then show ?thesis by (simp add: climate_mult_def dict_get_def Some inner)
  qed
qed

lemma age_penalty_nonneg: "0 \<le> age_penalty_of ctx"
proof -
  have t: "\<forall>p\<in>set AGE_FACTORS. 0 \<le> snd p" by (simp add: AGE_FACTORS_def)
  have "0 \<le> dict_get AGE_FACTORS k 0" for k
  proof (cases "map_of AGE_FACTORS k")
    case None
    then show ?thesis by (simp add: dict_get_def)
  next
    case (Some v)
    then have "(k, v) \<in> set AGE_FACTORS" by (rule map_of_SomeD)
    with t have "0 \<le> v" by fastforce
    then show ?thesis by (simp add: dict_get_def Some)
  qed
  then show ?thesis by (simp add: age_penalty_of_def split: option.splits)
qed

lemma valid_area_factor:
  assumes "valid_detection d" and "0 < a"
  shows "\<exists>f. area_factor a d = Inr f \<and> 0 \<le> f"
proof (cases "affected_area_percent d")
  case (Some p)
  then have "area_factor a d = Inr (p / 10)" by (simp add: area_factor_def)
  moreover have "0 \<le> p / 10" using assms(1) Some by (simp add: valid_detection_def)
  ultimately show ?thesis by blast
next
  case None
  show ?thesis
  proof (cases "bbox d")
    case nb: None
    with None assms(2) show ?thesis by (simp add: area_factor_def)
  next
    case (Some b)
    with assms(1) have b: "length b = 4" "b ! 0 < b ! 2" "b ! 1 < b ! 3"
      by (simp_all add: valid_detection_def)
    then have "0 \<le> (b ! 2 - b ! 0) * (b ! 3 - b ! 1)" by simp
    moreover have "(0::rat) < of_int a" using assms(2) by simp
    ultimately have "0 \<le> (b ! 2 - b ! 0) * (b ! 3 - b ! 1) / of_int a * 10"
      by (simp add: divide_nonneg_pos)
    moreover have "area_factor a d = Inr ((b ! 2 - b ! 0) * (b ! 3 - b ! 1) / of_int a * 10)"
      using None Some b(1) assms(2) by (simp add: area_factor_def)
    ultimately show ?thesis by blast
  qed
qed

lemma valid_confidence: "valid_detection d \<Longrightarrow> 0 \<le> confidence_of d \<and> confidence_of d \<le> 1"
  by (auto simp: valid_detection_def confidence_of_def split: option.splits)

text \<open>The penalty as a product, for a defect whose area factor is \<open>f\<close>.\<close>

lemma penalty_value_eq:
  assumes "area_factor a d = Inr f"
  shows "penalty_value sc adj a d =
     (severity (weight_of d) * 3 + f * area_multiplier (weight_of d))
       * (confidence_of d * confidence_weight sc + (1 - confidence_weight sc))
       * climate_mult adj d"
  using assms by (simp add: penalty_value_def defect_penalty_def Let_def)

lemma confidence_factor_nonneg:
  assumes "0 \<le> w" "w \<le> 1" "0 \<le> (c::rat)"
  shows "0 \<le> c * w + (1 - w)"
proof -
  have "0 \<le> c * w" using assms by simp
  moreover have "0 \<le> 1 - w" using assms by simp
  ultimately show ?thesis by linarith
qed

lemma penalty_value_nonneg:
  assumes "valid_config sc" and "0 < a" and "valid_detection d"
  shows "0 \<le> penalty_value sc (dict_get CLIMATE_FACTORS c []) a d"
proof -
  obtain f where f: "area_factor a d = Inr f" "0 \<le> f"
    using valid_area_factor [OF assms(3) assms(2)] by blast
  have w: "0 \<le> severity (weight_of d)" "0 \<le> area_multiplier (weight_of d)"
    using weight_of_nonneg by auto
  have cf: "0 \<le> confidence_of d * confidence_weight sc + (1 - confidence_weight sc)"
    using assms(1) valid_confidence [OF assms(3)]
    by (intro confidence_factor_nonneg) (simp_all add: valid_config_def)
  have "0 \<le> severity (weight_of d) * 3 + f * area_multiplier (weight_of d)"
    using w f(2) by simp
  then show ?thesis
    unfolding penalty_value_eq [OF f(1)]
    using cf climate_mult_nonneg by (intro mult_nonneg_nonneg)
qed




lemma increased_area_factor:
  assumes "0 < a" and "valid_detection d" and "valid_detection d'" and "increased d d'"
    and "area_factor a d = Inr f" and "area_factor a d' = Inr f'"
  shows "f \<le> f'"
proof (cases "affected_area_percent d")
  case (Some p)
  then obtain p' where p': "affected_area_percent d' = Some p'" "p \<le> p'"
    using assms(4) by (auto simp: increased_def split: option.splits)
  from Some p' assms(5,6) show ?thesis by (simp add: area_factor_def)
next
  case None
  then have n': "affected_area_percent d' = None"
    using assms(4) by (simp add: increased_def)
  show ?thesis
  proof (cases "bbox d")
    case nb: None
    then have "bbox d' = None" using assms(4) None by (simp add: increased_def)
    with nb None n' assms(1,5,6) show ?thesis by (simp add: area_factor_def)
  next
    case (Some b)
    then obtain b' where b': "bbox d' = Some b'"
      "(b ! 2 - b ! 0) * (b ! 3 - b ! 1) \<le> (b' ! 2 - b' ! 0) * (b' ! 3 - b' ! 1)"
      using assms(4) None by (auto simp: increased_def split: option.splits)
    have l: "length b = 4" "length b' = 4"
      using assms(2,3) Some b'(1) by (simp_all add: valid_detection_def)
    have pos: "(0::rat) < of_int a" using assms(1) by simp
    have le: "(b ! 2 - b ! 0) * (b ! 3 - b ! 1) / of_int a
        \<le> (b' ! 2 - b' ! 0) * (b' ! 3 - b' ! 1) / of_int a"
      using b'(2) pos by (simp add: divide_right_mono)
    have "area_factor a d = Inr ((b ! 2 - b ! 0) * (b ! 3 - b ! 1) / of_int a * 10)"
      using None Some l(1) assms(1) by (simp add: area_factor_def)
    then have fe: "f = (b ! 2 - b ! 0) * (b ! 3 - b ! 1) / of_int a * 10"
      using assms(5) by simp
    have "area_factor a d' = Inr ((b' ! 2 - b' ! 0) * (b' ! 3 - b' ! 1) / of_int a * 10)"
      using n' b'(1) l(2) assms(1) by (simp add: area_factor_def)
    then have fe': "f' = (b' ! 2 - b' ! 0) * (b' ! 3 - b' ! 1) / of_int a * 10"
      using assms(6) by simp
    show ?thesis unfolding fe fe' using le by (rule mult_right_mono) simp
  qed
qed

lemma increased_confidence:
  assumes "increased d d'"
  shows "confidence_of d \<le> confidence_of d'"
  using assms by (auto simp: increased_def confidence_of_def split: option.splits)

lemma penalty_value_mono:
  assumes "valid_config sc" and "0 < a" and "valid_detection d" and "valid_detection d'"
    and "increased d d'"
  shows "penalty_value sc (dict_get CLIMATE_FACTORS c []) a d
           \<le> penalty_value sc (dict_get CLIMATE_FACTORS c []) a d'"
proof -
  obtain f where f: "area_factor a d = Inr f" "0 \<le> f"
    using valid_area_factor [OF assms(3) assms(2)] by blast
  obtain f' where f': "area_factor a d' = Inr f'" "0 \<le> f'"
    using valid_area_factor [OF assms(4) assms(2)] by blast
  have ff: "f \<le> f'"
    using assms(2-5) f(1) f'(1) by (rule increased_area_factor)
  have cc: "confidence_of d \<le> confidence_of d'" using assms(5) by (rule increased_confidence)
  have cls: "defect_class_of d' = defect_class_of d"
    using assms(5) by (simp add: increased_def defect_class_of_def)
  then have same: "weight_of d' = weight_of d" "climate_mult adj d' = climate_mult adj d" for adj
    by (simp_all add: weight_of_def climate_mult_def)
  have w: "0 \<le> severity (weight_of d)" "0 \<le> area_multiplier (weight_of d)"
    using weight_of_nonneg by auto
  have cw: "0 \<le> confidence_weight sc" "confidence_weight sc \<le> 1"
    using assms(1) by (simp_all add: valid_config_def)
  have cf: "0 \<le> confidence_of d * confidence_weight sc + (1 - confidence_weight sc)"
    using cw valid_confidence [OF assms(3)] by (intro confidence_factor_nonneg) simp_all
  have cf_le: "confidence_of d * confidence_weight sc + (1 - confidence_weight sc)
      \<le> confidence_of d' * confidence_weight sc + (1 - confidence_weight sc)"
    using cc cw(1) by (simp add: mult_right_mono)
  have b: "0 \<le> severity (weight_of d) * 3 + f * area_multiplier (weight_of d)"
    using w f(2) by simp
  have b_le: "severity (weight_of d) * 3 + f * area_multiplier (weight_of d)
      \<le> severity (weight_of d) * 3 + f' * area_multiplier (weight_of d)"
    using ff w(2) by (simp add: mult_right_mono)
  have "(severity (weight_of d) * 3 + f * area_multiplier (weight_of d))
          * (confidence_of d * confidence_weight sc + (1 - confidence_weight sc))
      \<le> (severity (weight_of d) * 3 + f' * area_multiplier (weight_of d))
          * (confidence_of d' * confidence_weight sc + (1 - confidence_weight sc))"
    using b_le cf_le b cf by (intro mult_mono) simp_all
  then show ?thesis
    unfolding penalty_value_eq [OF f(1)] penalty_value_eq [OF f'(1)] same
    using climate_mult_nonneg by (intro mult_right_mono)
qed

section \<open>The score formula\<close>

lemma valid_config_default: "valid_config default_scorer"
  by (simp add: valid_config_def default_scorer_def)

lemma raw_defect_total_nonneg:
  assumes "valid_config sc" and "0 < a" and "\<forall>d\<in>set ds. valid_detection d"
  shows "0 \<le> raw_defect_total sc ctx a ds"
  unfolding raw_defect_total_def
  using assms by (intro sum_list_nonneg) (auto simp: penalty_value_nonneg)

lemma raw_defect_total_append:
  "raw_defect_total sc ctx a (xs @ ys) = raw_defect_total sc ctx a xs + raw_defect_total sc ctx a ys"
  by (simp add: raw_defect_total_def)

lemma raw_defect_total_Cons:
  "raw_defect_total sc ctx a (d # ys)
     = penalty_value sc (dict_get CLIMATE_FACTORS (climate_of ctx) []) a d
       + raw_defect_total sc ctx a ys"
  by (simp add: raw_defect_total_def)


lemma example_detections_valid:
  "valid_detection (mold_detection None)" "valid_detection (crack_detection [0, 0, 10, 10])"
  "valid_detection larger_crack" "valid_detection heavy_mold"
  by code_simp+

lemma heavier_mold_valid: "valid_detection heavier_mold"
  by code_simp

lemma example_increases:
  "increased (crack_detection [0, 0, 10, 10]) larger_crack"
  "increased (mold_detection None) heavier_mold"
  by code_simp+

lemma score_of_nonempty:
  assumes "ds \<noteq> []" and "image_area \<noteq> 0"
  shows "\<exists>r sc'. calculate_score imported sc ds image_area ctx = Inr (r, sc')
     \<and> score r = py_round (max 0 (base_score sc
          - (min (raw_defect_total sc ctx image_area ds) (max_defects_penalty sc)
             + age_penalty_of ctx)))"
proof -
  have "\<forall>d\<in>set ds. \<not> (image_area = 0 \<and> needs_image_area d)"
    using assms(2) by simp
  from calculate_score_Inr [OF assms(1) this, of imported sc ctx] show ?thesis by blast
qed




section \<open>Monotonicity of the score\<close>

lemma score_antimono:
  assumes "image_area \<noteq> 0" and "ds \<noteq> []" and "ds' \<noteq> []"
    and "raw_defect_total sc ctx image_area ds \<le> raw_defect_total sc ctx image_area ds'"
  shows "\<exists>s s'. result_score (calculate_score imported sc ds image_area ctx) = Inr s
     \<and> result_score (calculate_score imported sc ds' image_area ctx) = Inr s' \<and> s' \<le> s"
proof -
  have nd: "\<forall>d\<in>set xs. \<not> (image_area = 0 \<and> needs_image_area d)" for xs
    using assms(1) by simp
  obtain r sc1 where
    c: "calculate_score imported sc ds image_area ctx = Inr (r, sc1)"
    and s: "score r = py_round (max 0 (base_score sc
          - (min (raw_defect_total sc ctx image_area ds) (max_defects_penalty sc)
             + age_penalty_of ctx)))"
    using calculate_score_Inr [OF assms(2) nd, of imported sc ctx] by blast
  obtain r' sc2 where
    c': "calculate_score imported sc ds' image_area ctx = Inr (r', sc2)"
    and s': "score r' = py_round (max 0 (base_score sc
          - (min (raw_defect_total sc ctx image_area ds') (max_defects_penalty sc)
             + age_penalty_of ctx)))"
    using calculate_score_Inr [OF assms(3) nd, of imported sc ctx] by blast
  have "max 0 (base_score sc
          - (min (raw_defect_total sc ctx image_area ds') (max_defects_penalty sc)
             + age_penalty_of ctx))
      \<le> max 0 (base_score sc
          - (min (raw_defect_total sc ctx image_area ds) (max_defects_penalty sc)
             + age_penalty_of ctx))"
    using assms(4) by (simp add: max_def min_def)
  then have "score r' \<le> score r" unfolding s s' by (rule py_round_mono)
  with c c' show ?thesis by (simp add: result_score_def)
qed

lemma score_at_most_100:
  assumes "valid_config sc" and "0 < image_area" and "\<forall>d\<in>set ds. valid_detection d"
    and "ds \<noteq> []"
  shows "\<exists>s'. result_score (calculate_score imported sc ds image_area ctx) = Inr s' \<and> s' \<le> 100"
proof -
  have nd: "\<forall>d\<in>set ds. \<not> (image_area = 0 \<and> needs_image_area d)"
    using assms(2) by simp
  obtain r sc1 where
    c: "calculate_score imported sc ds image_area ctx = Inr (r, sc1)"
    and s: "score r = py_round (max 0 (base_score sc
          - (min (raw_defect_total sc ctx image_area ds) (max_defects_penalty sc)
             + age_penalty_of ctx)))"
    using calculate_score_Inr [OF assms(4) nd, of imported sc ctx] by blast
  have "0 \<le> raw_defect_total sc ctx image_area ds"
    using assms(1-3) by (rule raw_defect_total_nonneg)
  moreover have "0 \<le> max_defects_penalty sc" "base_score sc \<le> 100"
    using assms(1) by (simp_all add: valid_config_def)
  ultimately have "max 0 (base_score sc
          - (min (raw_defect_total sc ctx image_area ds) (max_defects_penalty sc)
             + age_penalty_of ctx)) \<le> of_int 100"
    using age_penalty_nonneg [of ctx] by simp
  then have "score r \<le> py_round (of_int 100)" unfolding s by (rule py_round_mono)
  then have "score r \<le> 100" by (simp only: py_round_of_int)
  with c show ?thesis by (simp add: result_score_def)
qed

text \<open>
  C8: for valid detections, a valid configuration (the default one is) and a positive
  image area, with the context and everything else the same: the score of a list with
  one more defect, anywhere in the list, is not above the score of the list without it;
  and the score does not go up when one defect of the list is replaced by a valid one of
  the same class whose confidence is not smaller and whose affected area is not smaller,
  the affected area being \<^verbatim>\<open>affected_area_percent\<close> where the detection has it and
  the area of its box where it has not (see \<open>increased\<close>).
\<close>

theorem score_monotone:
  assumes "valid_config sc" and "0 < image_area"
    and "\<forall>x\<in>set (xs @ d # ys). valid_detection x"
  shows "(\<exists>s s'. result_score (calculate_score imported sc (xs @ ys) image_area ctx) = Inr s
            \<and> result_score (calculate_score imported sc (xs @ d # ys) image_area ctx) = Inr s'
            \<and> s' \<le> s)
     \<and> (valid_detection d' \<and> increased d d' \<longrightarrow>
          (\<exists>s s'. result_score (calculate_score imported sc (xs @ d # ys) image_area ctx) = Inr s
            \<and> result_score (calculate_score imported sc (xs @ d' # ys) image_area ctx) = Inr s'
            \<and> s' \<le> s))"
proof
  have vd: "valid_detection d" using assms(3) by simp
  have pd: "0 \<le> penalty_value sc (dict_get CLIMATE_FACTORS (climate_of ctx) []) image_area d"
    using assms(1,2) vd by (rule penalty_value_nonneg)
  show "\<exists>s s'. result_score (calculate_score imported sc (xs @ ys) image_area ctx) = Inr s
            \<and> result_score (calculate_score imported sc (xs @ d # ys) image_area ctx) = Inr s'
            \<and> s' \<le> s"
  proof (cases "xs @ ys = []")
    case True
    then have "result_score (calculate_score imported sc (xs @ ys) image_area ctx) = Inr 100"
      by (simp add: calculate_score_def result_score_def base_result_def)
    moreover obtain s' where
      "result_score (calculate_score imported sc (xs @ d # ys) image_area ctx) = Inr s'"
      "s' \<le> 100"
      using score_at_most_100 [OF assms(1,2,3), of imported ctx] by auto
    ultimately show ?thesis by simp
  next
    case False
    have "raw_defect_total sc ctx image_area (xs @ ys)
        \<le> raw_defect_total sc ctx image_area (xs @ d # ys)"
      using pd by (simp add: raw_defect_total_append raw_defect_total_Cons)
    then show ?thesis
      using assms(2) False by (intro score_antimono) simp_all
  qed
next
  show "valid_detection d' \<and> increased d d' \<longrightarrow>
          (\<exists>s s'. result_score (calculate_score imported sc (xs @ d # ys) image_area ctx) = Inr s
            \<and> result_score (calculate_score imported sc (xs @ d' # ys) image_area ctx) = Inr s'
            \<and> s' \<le> s)"
  proof
    assume h: "valid_detection d' \<and> increased d d'"
    have vd: "valid_detection d" using assms(3) by simp
    have "penalty_value sc (dict_get CLIMATE_FACTORS (climate_of ctx) []) image_area d
        \<le> penalty_value sc (dict_get CLIMATE_FACTORS (climate_of ctx) []) image_area d'"
      using assms(1,2) vd h by (intro penalty_value_mono) simp_all
    then have "raw_defect_total sc ctx image_area (xs @ d # ys)
        \<le> raw_defect_total sc ctx image_area (xs @ d' # ys)"
      by (simp add: raw_defect_total_append raw_defect_total_Cons)
    then show "\<exists>s s'. result_score (calculate_score imported sc (xs @ d # ys) image_area ctx) = Inr s
            \<and> result_score (calculate_score imported sc (xs @ d' # ys) image_area ctx) = Inr s'
            \<and> s' \<le> s"
      using assms(2) by (intro score_antimono) simp_all
  qed
qed

theorem score_monotone_witness:
  "(\<exists>s s'. result_score (calculate_score None default_scorer [mold_detection None] 307200 None)
              = Inr s
       \<and> result_score (calculate_score None default_scorer
            [mold_detection None, crack_detection [0, 0, 10, 10]] 307200 None) = Inr s'
       \<and> s' \<le> s)
   \<and> (\<exists>s s'. result_score (calculate_score None default_scorer
            [mold_detection None, crack_detection [0, 0, 10, 10]] 307200 None) = Inr s
       \<and> result_score (calculate_score None default_scorer
            [mold_detection None, larger_crack] 307200 None) = Inr s'
       \<and> s' \<le> s)
   \<and> (\<exists>s s'. result_score (calculate_score None default_scorer
            [mold_detection None, larger_crack] 307200 None) = Inr s
       \<and> result_score (calculate_score None default_scorer
            [heavier_mold, larger_crack] 307200 None) = Inr s'
       \<and> s' \<le> s)
   \<and> result_score (calculate_score None default_scorer [mold_detection None] 307200 None)
        = Inr 85
   \<and> result_score (calculate_score None default_scorer
        [mold_detection None, crack_detection [0, 0, 10, 10]] 307200 None) = Inr 77
   \<and> result_score (calculate_score None default_scorer
        [mold_detection None, larger_crack] 307200 None) = Inr 76
   \<and> result_score (calculate_score None default_scorer
        [heavier_mold, larger_crack] 307200 None) = Inr 63"
proof -
  have v: "result_score (calculate_score None default_scorer [mold_detection None] 307200 None)
        = Inr 85"
    "result_score (calculate_score None default_scorer
        [mold_detection None, crack_detection [0, 0, 10, 10]] 307200 None) = Inr 77"
    "result_score (calculate_score None default_scorer
        [mold_detection None, larger_crack] 307200 None) = Inr 76"
    "result_score (calculate_score None default_scorer
        [heavier_mold, larger_crack] 307200 None) = Inr 63"
    by code_simp+
  have m: "(\<exists>s s'. result_score (calculate_score None default_scorer
              ([mold_detection None] @ []) 307200 None) = Inr s
       \<and> result_score (calculate_score None default_scorer
            ([mold_detection None] @ crack_detection [0, 0, 10, 10] # []) 307200 None) = Inr s'
       \<and> s' \<le> s)
   \<and> (\<exists>s s'. result_score (calculate_score None default_scorer
            ([mold_detection None] @ crack_detection [0, 0, 10, 10] # []) 307200 None) = Inr s
       \<and> result_score (calculate_score None default_scorer
            ([mold_detection None] @ larger_crack # []) 307200 None) = Inr s'
       \<and> s' \<le> s)"
    using score_monotone [where sc = default_scorer and image_area = 307200
        and xs = "[mold_detection None]" and d = "crack_detection [0, 0, 10, 10]" and ys = "[]"
        and d' = larger_crack and imported = None and ctx = None]
      valid_config_default example_detections_valid example_increases
    by simp
  have n: "\<exists>s s'. result_score (calculate_score None default_scorer
            ([] @ mold_detection None # [larger_crack]) 307200 None) = Inr s
       \<and> result_score (calculate_score None default_scorer
            ([] @ heavier_mold # [larger_crack]) 307200 None) = Inr s'
       \<and> s' \<le> s"
    using score_monotone [where sc = default_scorer and image_area = 307200
        and xs = "[]" and d = "mold_detection None" and ys = "[larger_crack]"
        and d' = heavier_mold and imported = None and ctx = None]
      valid_config_default example_detections_valid example_increases heavier_mold_valid
    by simp
  from m n v show ?thesis by simp
qed

section \<open>The Cortex collaborator\<close>

text \<open>
  C5, as stated: two calls of \<^verbatim>\<open>calculate_score\<close> with the same arguments return the
  same result, and the call has no side effect and makes no external call. With the
  default configuration the call asks the Cortex collaborator and copies its answer into
  the result: the same scorer, defects, image area and context give the explanation
  "stable" and the action "wait" with one collaborator, and the explanation "urgent" and
  the action "act" with another.
\<close>

theorem cortex_counterexample:
  "result_explanation (calculate_score (Some (cortex_says ''stable'' [''wait''])) default_scorer
       [mold_detection None] 307200 None) = Inr (Some ''stable'')
   \<and> result_explanation (calculate_score (Some (cortex_says ''urgent'' [''act''])) default_scorer
       [mold_detection None] 307200 None) = Inr (Some ''urgent'')
   \<and> result_actions (calculate_score (Some (cortex_says ''stable'' [''wait''])) default_scorer
       [mold_detection None] 307200 None) = Inr [''wait'']
   \<and> result_actions (calculate_score (Some (cortex_says ''urgent'' [''act''])) default_scorer
       [mold_detection None] 307200 None) = Inr [''act'']"
  by code_simp

lemma defect_penalty_config:
  "defect_penalty (sc\<lparr>enable_cortex_ai := en, cortex_analytics := cx\<rparr>) adj a d
     = defect_penalty sc adj a d"
  by (simp add: defect_penalty_def Let_def split: sum.splits)

lemma score_defects_config:
  "score_defects (sc\<lparr>enable_cortex_ai := en, cortex_analytics := cx\<rparr>) adj a ds st
     = score_defects sc adj a ds st"
proof (induction ds arbitrary: st)
  case Nil
  then show ?case by simp
next
  case (Cons d ds)
  obtain tp bd bt where st: "st = (tp, bd, bt)" by (cases st) auto
  show ?case by (simp add: st defect_penalty_config Cons.IH split: sum.splits)
qed

lemma calculate_score_cortex:
  assumes "calculate_score imported sc ds a ctx = Inr (r, sc')" and "ds \<noteq> []"
  shows "sc' = sc\<lparr>cortex_analytics := held_after imported sc\<rparr>
     \<and> ai_explanation r
         = (case held_after imported sc of
              None \<Rightarrow> None
            | Some f \<Rightarrow> (case f ds ctx of None \<Rightarrow> None | Some ans \<Rightarrow> Some (risk_explanation ans)))
     \<and> recommended_actions r
         = (case held_after imported sc of
              None \<Rightarrow> actions_of (score r)
            | Some f \<Rightarrow>
                (case f ds ctx of
                   None \<Rightarrow> actions_of (score r)
                 | Some ans \<Rightarrow>
                     if cx_recommended_actions ans = [] then actions_of (score r)
                     else cx_recommended_actions ans))"
proof (cases "score_defects sc (dict_get CLIMATE_FACTORS (climate_of ctx) []) a ds (0, [], [])")
  case (Inl e)
  with assms show ?thesis by (simp add: calculate_score_def)
next
  case (Inr st)
  obtain tp bd bt where st: "st = (tp, bd, bt)" by (cases st) auto
  show ?thesis
  proof (cases "cortex_analytics sc")
    case None
    show ?thesis
    proof (cases "enable_cortex_ai sc")
      case True
      with assms None show ?thesis
        by (cases imported)
          (auto simp: calculate_score_def Inr st Let_def get_cortex_analytics_def held_after_def
            split: option.splits)
    next
      case False
      with assms None show ?thesis
        by (auto simp: calculate_score_def Inr st Let_def get_cortex_analytics_def held_after_def)
    qed
  next
    case (Some f)
    with assms show ?thesis
      by (auto simp: calculate_score_def Inr st Let_def get_cortex_analytics_def held_after_def
          split: option.splits)
  qed
qed

text \<open>
  C5, amended: whether \<^verbatim>\<open>calculate_score\<close> raises, and every field of its result
  but \<^verbatim>\<open>ai_explanation\<close> and \<^verbatim>\<open>recommended_actions\<close>, are a function of the defects,
  the image area, the context and the numeric configuration of the scorer: they do not
  depend on the collaborator, on the flag \<^verbatim>\<open>enable_cortex_ai\<close> or on the collaborator
  that the scorer object holds. A call on an empty list leaves the scorer object as it
  was. A call on a non-empty list that returns leaves in the scorer object the
  collaborator \<open>held_after\<close>: the one it held, else the imported one when the flag is on,
  else none; it asks that collaborator, if any, and copies the explanation of its answer
  into \<^verbatim>\<open>ai_explanation\<close> and its actions, when there are any, into
  \<^verbatim>\<open>recommended_actions\<close>; with no collaborator, no answer or no actions, the
  explanation is absent and the actions are those of the band of the score.
\<close>

theorem calculate_score_deterministic_part:
  "deterministic_result (calculate_score imported sc ds a ctx)
     = deterministic_result
         (calculate_score imported' (sc\<lparr>enable_cortex_ai := en, cortex_analytics := cx\<rparr>) ds a ctx)
   \<and> (ds = [] \<longrightarrow> calculate_score imported sc ds a ctx = Inr (base_result, sc))
   \<and> (ds \<noteq> [] \<and> calculate_score imported sc ds a ctx = Inr (r, sc') \<longrightarrow>
        sc' = sc\<lparr>cortex_analytics := held_after imported sc\<rparr>
        \<and> ai_explanation r
            = (case held_after imported sc of
                 None \<Rightarrow> None
               | Some f \<Rightarrow>
                   (case f ds ctx of None \<Rightarrow> None | Some ans \<Rightarrow> Some (risk_explanation ans)))
        \<and> recommended_actions r
            = (case held_after imported sc of
                 None \<Rightarrow> actions_of (score r)
               | Some f \<Rightarrow>
                   (case f ds ctx of
                      None \<Rightarrow> actions_of (score r)
                    | Some ans \<Rightarrow>
                        if cx_recommended_actions ans = [] then actions_of (score r)
                        else cx_recommended_actions ans)))"
proof -
  have 1: "deterministic_result (calculate_score imported sc ds a ctx)
     = deterministic_result
         (calculate_score imported' (sc\<lparr>enable_cortex_ai := en, cortex_analytics := cx\<rparr>) ds a ctx)"
  proof (cases "ds = []")
    case True
    then show ?thesis
      by (simp add: calculate_score_def deterministic_result_def base_result_def)
  next
    case False
    show ?thesis
    proof (cases "score_defects sc (dict_get CLIMATE_FACTORS (climate_of ctx) []) a ds (0, [], [])")
      case (Inl e)
      then show ?thesis
        using False
        by (simp add: calculate_score_def deterministic_result_def score_defects_config)
    next
      case (Inr st)
      obtain tp bd bt where st: "st = (tp, bd, bt)" by (cases st) auto
      show ?thesis
        using False
        by (simp add: calculate_score_def deterministic_result_def score_defects_config Inr st
            Let_def get_cortex_analytics_def deterministic_part_def split: prod.splits)
    qed
  qed
  have 2: "ds = [] \<longrightarrow> calculate_score imported sc ds a ctx = Inr (base_result, sc)"
    by (simp add: calculate_score_def)
  from 1 2 calculate_score_cortex [of imported sc ds a ctx r sc'] show ?thesis by blast
qed

theorem calculate_score_deterministic_part_witness:
  "deterministic_result (calculate_score (Some (cortex_says ''stable'' [''wait''])) default_scorer
       [mold_detection None] 307200 None)
     = deterministic_result (calculate_score (Some (cortex_says ''urgent'' [])) quiet_scorer
       [mold_detection None] 307200 None)
   \<and> (\<exists>r. calculate_score (Some (cortex_says ''stable'' [''wait''])) default_scorer
         [mold_detection None] 307200 None
           = Inr (r, default_scorer\<lparr>cortex_analytics := Some (cortex_says ''stable'' [''wait''])\<rparr>)
       \<and> ai_explanation r = Some ''stable'' \<and> recommended_actions r = [''wait''])
   \<and> (\<exists>r. calculate_score (Some (cortex_says ''urgent'' [])) default_scorer
         [mold_detection None] 307200 None
           = Inr (r, default_scorer\<lparr>cortex_analytics := Some (cortex_says ''urgent'' [])\<rparr>)
       \<and> ai_explanation r = Some ''urgent'' \<and> recommended_actions r = actions_of (score r))
   \<and> (\<exists>r. calculate_score (Some (cortex_says ''urgent'' [])) quiet_scorer
         [mold_detection None] 307200 None = Inr (r, quiet_scorer)
       \<and> ai_explanation r = None \<and> recommended_actions r = actions_of (score r))"
proof -
  have h: "held_after (Some f) default_scorer = Some f" "held_after (Some f) quiet_scorer = None"
    for f
    by (simp_all add: held_after_def default_scorer_def quiet_scorer_def)
  have q: "quiet_scorer\<lparr>cortex_analytics := None\<rparr> = quiet_scorer"
    "default_scorer\<lparr>enable_cortex_ai := False, cortex_analytics := None\<rparr> = quiet_scorer"
    by (simp_all add: quiet_scorer_def default_scorer_def)
  have ex: "\<exists>r sc'. calculate_score imported sc [mold_detection None] 307200 None = Inr (r, sc')"
    for imported sc
    using score_of_nonempty [of "[mold_detection None]" 307200 imported sc None] by auto
  obtain r1 s1 where c1: "calculate_score (Some (cortex_says ''stable'' [''wait''])) default_scorer
         [mold_detection None] 307200 None = Inr (r1, s1)"
    using ex by blast
  obtain r2 s2 where c2: "calculate_score (Some (cortex_says ''urgent'' [])) default_scorer
         [mold_detection None] 307200 None = Inr (r2, s2)"
    using ex by blast
  obtain r3 s3 where c3: "calculate_score (Some (cortex_says ''urgent'' [])) quiet_scorer
         [mold_detection None] 307200 None = Inr (r3, s3)"
    using ex by blast
  have a: "deterministic_result (calculate_score (Some (cortex_says ''stable'' [''wait'']))
        default_scorer [mold_detection None] 307200 None)
     = deterministic_result (calculate_score (Some (cortex_says ''urgent'' [])) quiet_scorer
        [mold_detection None] 307200 None)"
    using calculate_score_deterministic_part [where imported = "Some (cortex_says ''stable'' [''wait''])"
        and sc = default_scorer and ds = "[mold_detection None]" and a = 307200 and ctx = None
        and imported' = "Some (cortex_says ''urgent'' [])" and en = False and cx = None]
    by (simp add: q)
  have b1: "s1 = default_scorer\<lparr>cortex_analytics := Some (cortex_says ''stable'' [''wait''])\<rparr>
      \<and> ai_explanation r1 = Some ''stable'' \<and> recommended_actions r1 = [''wait'']"
    using calculate_score_deterministic_part [where imported = "Some (cortex_says ''stable'' [''wait''])"
        and sc = default_scorer and ds = "[mold_detection None]" and a = 307200 and ctx = None
        and r = r1 and sc' = s1] c1
    by (simp add: h cortex_says_def)
  have b2: "s2 = default_scorer\<lparr>cortex_analytics := Some (cortex_says ''urgent'' [])\<rparr>
      \<and> ai_explanation r2 = Some ''urgent'' \<and> recommended_actions r2 = actions_of (score r2)"
    using calculate_score_deterministic_part [where imported = "Some (cortex_says ''urgent'' [])"
        and sc = default_scorer and ds = "[mold_detection None]" and a = 307200 and ctx = None
        and r = r2 and sc' = s2] c2
    by (simp add: h cortex_says_def)
  have b3: "s3 = quiet_scorer
      \<and> ai_explanation r3 = None \<and> recommended_actions r3 = actions_of (score r3)"
    using calculate_score_deterministic_part [where imported = "Some (cortex_says ''urgent'' [])"
        and sc = quiet_scorer and ds = "[mold_detection None]" and a = 307200 and ctx = None
        and r = r3 and sc' = s3] c3
    by (simp add: h q)
  from a b1 b2 b3 c1 c2 c3 show ?thesis by auto
qed

section \<open>Detections without a box of four numbers\<close>

subsection \<open>The two models of the scorer agree\<close>

lemma those_numbers: "those (map (\<lambda>x. number_of (PyNum x)) b) = Some b"
  by (induction b) simp_all

lemma those_Some: "those (map Some b) = Some b"
  by (induction b) simp_all

lemma as_of_detection: "as_detection (of_detection d) = d"
  by (cases "bbox d")
    (simp_all add: as_detection_def of_detection_def those_numbers those_Some comp_def)

lemma area_factor_json_agrees: "area_factor_json a (of_detection d) = area_factor a d"
proof (cases "affected_area_percent d")
  case (Some p)
  then show ?thesis by (simp add: area_factor_json_def area_factor_def of_detection_def)
next
  case None
  show ?thesis
  proof (cases "bbox d")
    case nb: None
    with None show ?thesis
      by (simp add: area_factor_json_def area_factor_def of_detection_def box_diff_def)
  next
    case (Some b)
    with None show ?thesis
      by (simp add: area_factor_json_def area_factor_def of_detection_def box_diff_def)
  qed
qed

lemma defect_penalty_json_agrees:
  "defect_penalty_json sc adj a (of_detection d) = defect_penalty sc adj a d"
  unfolding defect_penalty_json_def defect_penalty_def area_factor_json_agrees as_of_detection
  by (rule refl)

lemma score_defects_json_agrees:
  "score_defects_json sc adj a (map of_detection ds) st = score_defects sc adj a ds st"
proof (induction ds arbitrary: st)
  case Nil
  then show ?case by simp
next
  case (Cons d ds)
  obtain tp bd bt where st: "st = (tp, bd, bt)" by (cases st) auto
  show ?case
    by (simp add: st defect_penalty_json_agrees as_of_detection Cons.IH split: sum.splits)
qed

lemma calculate_score_json_agrees:
  "calculate_score_json imported sc (map of_detection ds) a ctx
     = calculate_score imported sc ds a ctx"
proof -
  have m: "map as_detection (map of_detection ds) = ds"
    by (induction ds) (simp_all add: as_of_detection)
  show ?thesis
    unfolding calculate_score_json_def calculate_score_def score_defects_json_agrees m
      map_is_Nil_conv length_map
    by (rule refl)
qed

subsection \<open>The errors of the scorer\<close>




lemma box_diff_list:
  assumes "i < length vs" and "j < length vs"
  shows "box_diff (PyList vs) i j = py_sub (vs ! i) (vs ! j)"
  using assms by (simp add: box_diff_def)









subsection \<open>The errors of the tracker\<close>















section \<open>Matching a detection to a track\<close>

text \<open>
  Since hashing a track raises, the inner loop returns only when there is no active
  track, and the first loop never binds a detection to a track: an \<^verbatim>\<open>update\<close> that
  returns has kept every existing track as it was and has appended new tracks with
  \<^verbatim>\<open>frames_seen\<close> 1.
\<close>

lemma find_best_Inr:
  assumes "find_best trs b det matched active best = Inr r"
  shows "active = [] \<and> r = best"
  using assms by (cases active; cases best) (simp_all add: hash_track_def)

lemma match_detections_keeps:
  assumes "match_detections thr f active idets (trs, assigned, matched) = Inr (trs', assigned', matched')"
  shows "trs' = trs \<and> assigned' = assigned"
  using assms
proof (induction idets)
  case Nil
  then show ?case by simp
next
  case (Cons p idets)
  obtain j det where p: "p = (j, det)" by (cases p) auto
  from Cons.prems have
    "match_detections thr f active idets (trs, assigned, matched) = Inr (trs', assigned', matched')"
    unfolding p
    by (auto simp: hash_track_def split: option.splits sum.splits prod.splits if_splits)
  then show ?case by (rule Cons.IH)
qed

lemma create_tracks_appends:
  assumes "create_tracks f assigned idets (trs, nid) = Inr (trs', nid')"
  shows "\<exists>new. trs' = trs @ new \<and> (\<forall>t\<in>set new. frames_seen t = 1)"
  using assms
proof (induction idets arbitrary: trs nid)
  case Nil
  then show ?case by simp
next
  case (Cons p idets)
  obtain j det where p: "p = (j, det)" by (cases p) auto
  show ?case
  proof (cases "j \<in> set assigned")
    case True
    then show ?thesis using Cons.prems Cons.IH by (simp add: p)
  next
    case False
    then obtain t where
      "create_tracks f assigned idets (trs @ [t], nid + 1) = Inr (trs', nid')" "frames_seen t = 1"
      using Cons.prems unfolding p
      by (auto split: option.splits sum.splits)
    then obtain new where "trs' = (trs @ [t]) @ new" "\<forall>t\<in>set new. frames_seen t = 1"
      using Cons.IH by blast
    with \<open>frames_seen t = 1\<close> have "trs' = trs @ (t # new) \<and> (\<forall>t\<in>set (t # new). frames_seen t = 1)"
      by simp
    then show ?thesis by blast
  qed
qed

lemma update_keeps_tracks:
  assumes "update tr dets frame_id = Inr tr'"
  shows "\<exists>new. tracks tr' = tracks tr @ new \<and> (\<forall>t\<in>set new. frames_seen t = 1)"
proof -
  from assms obtain sorted_dets trs assigned matched trs' nid where
    m: "match_detections (iou_threshold tr) frame_id
          (filter (\<lambda>k. frame_id - last_frame (tracks tr ! k) \<le> max_dropout tr)
             [0 ..< length (tracks tr)])
          (enumerate 0 sorted_dets) (tracks tr, [], []) = Inr (trs, assigned, matched)"
    and c: "create_tracks frame_id assigned (enumerate 0 sorted_dets) (trs, next_id tr)
          = Inr (trs', nid)"
    and t: "tr' = tr\<lparr>tracks := trs', next_id := nid\<rparr>"
    by (auto simp: update_def Let_def split: sum.splits prod.splits)
  from match_detections_keeps [OF m] have "trs = tracks tr" by simp
  with create_tracks_appends [OF c] t show ?thesis by simp
qed

text \<open>
  C7: the first \<^verbatim>\<open>update\<close> of a fresh tracker with one crack creates its track, with
  \<^verbatim>\<open>frames_seen\<close> 1. In the next frame the same detection has the class of that track
  and an IoU of 1 with its box, and the track is active; \<^verbatim>\<open>update\<close> raises
  \<^verbatim>\<open>TypeError\<close> when it tests the track for membership in \<^verbatim>\<open>matched_tracks\<close>, and
  \<^verbatim>\<open>frames_seen\<close> is not incremented.
\<close>

theorem repeated_detection_raises:
  "update new_tracker [crack_detection [0, 0, 10, 10]] 0 = Inr tracker_after_first
   \<and> calculate_iou [0, 0, 10, 10] [0, 0, 10, 10] = Inr 1
   \<and> update tracker_after_first [crack_detection [0, 0, 10, 10]] 1 = Inl TypeError"
  by code_simp

end
